theory Spec2Isabelle
  imports Main "HOL-Library.Sublist"
begin

section \<open>JavaScript strings\<close>

text \<open>
  Strings are lists of characters. The builder only ever inspects or replaces ASCII
  characters, so nothing below depends on how characters beyond ASCII are encoded.
\<close>

text \<open>\<^verbatim>\<open>s.startsWith(p)\<close> and \<^verbatim>\<open>s.includes(sub)\<close>.\<close>

fun startsWith :: "string \<Rightarrow> string \<Rightarrow> bool" where
  "startsWith s [] = True"
| "startsWith [] (p # ps) = False"
| "startsWith (c # cs) (p # ps) = (c = p \<and> startsWith cs ps)"

fun js_includes :: "string \<Rightarrow> string \<Rightarrow> bool" where
  "js_includes [] sub = (sub = [])"
| "js_includes (c # cs) sub = (startsWith (c # cs) sub \<or> js_includes cs sub)"

text \<open>\<^verbatim>\<open>xs.join(sep)\<close> on an array of strings.\<close>

fun join :: "string \<Rightarrow> string list \<Rightarrow> string" where
  "join sep [] = []"
| "join sep [x] = x"
| "join sep (x # y # ys) = x @ sep @ join sep (y # ys)"

text \<open>\<^verbatim>\<open>s.split(c)\<close> for a one-character separator: the result is never empty.\<close>

fun split_char :: "char \<Rightarrow> string \<Rightarrow> string list" where
  "split_char sep [] = [[]]"
| "split_char sep (c # cs) =
     (if c = sep then [] # split_char sep cs
      else (case split_char sep cs of
              [] \<Rightarrow> [[c]]
            | x # xs \<Rightarrow> (c # x) # xs))"

text \<open>\<^verbatim>\<open>xs.pop()\<close> read as a value: the last element, \<^verbatim>\<open>undefined\<close> on an empty array.\<close>

fun pop :: "'a list \<Rightarrow> 'a option" where
  "pop [] = None"
| "pop [x] = Some x"
| "pop (x # y # ys) = pop (y # ys)"

text \<open>\<^verbatim>\<open>s.toLowerCase()\<close>, on the ASCII letters.\<close>

definition lower_char :: "char \<Rightarrow> char" where
  "lower_char c =
     (let n = (of_char c :: nat) in if 65 \<le> n \<and> n \<le> 90 then char_of (n + 32) else c)"

definition toLowerCase :: "string \<Rightarrow> string" where
  "toLowerCase s = map lower_char s"

text \<open>
  Truthiness of an optional string: \<^verbatim>\<open>undefined\<close> and the empty string are falsy.
  \<open>str_or v d\<close> is \<^verbatim>\<open>v || d\<close>.
\<close>

fun truthy :: "string option \<Rightarrow> bool" where
  "truthy None = False"
| "truthy (Some s) = (s \<noteq> [])"

fun str_or :: "string option \<Rightarrow> string \<Rightarrow> string" where
  "str_or None d = d"
| "str_or (Some s) d = (if s = [] then d else s)"

text \<open>The line separator, and the separator the template uses between tags.\<close>

definition nl :: string where
  "nl = [CHR 0x0A]"

definition tag_sep :: string where
  "tag_sep = nl @ ''    ''"

section \<open>The data model\<close>

text \<open>
  The page description (\<^verbatim>\<open>PageConfig\<close>): the fields the builder reads. The block list
  and the navigation data belong to the component framework and stay abstract
  (\<open>'b\<close>, \<open>'n\<close>); any further field of a page lives in the record's extension.
\<close>

record pageSharing =
  sharing_title :: "string option"
  sharing_description :: "string option"
  sharing_image :: "string option"

record pageMeta =
  title :: "string option"
  description :: "string option"
  sharing :: "pageSharing option"
  meta_keywords :: "string list option"

record ('b, 'n) pageConfig =
  meta :: "pageMeta option"
  css :: "string list option"
  js :: "string list option"
  navigation :: "'n option"
  blocks :: 'b

text \<open>\<^verbatim>\<open>AnalyticsContextProps\<close>: the handler is carried as its source text.\<close>

record analyticsConfig =
  sendEvents :: "string option"
  autoEvents :: "bool option"

text \<open>\<^verbatim>\<open>BuilderConfig\<close>, as \<^verbatim>\<open>loadConfig\<close> of the CLI fills it.\<close>

record builderConfig =
  cfg_input :: string
  cfg_output :: string
  cfg_css :: "string list option"
  cfg_components :: "string option"
  cfg_assets :: "string option"
  cfg_theme :: "string option"
  cfg_baseUrl :: "string option"
  cfg_minify :: bool
  cfg_sourceMaps :: bool
  cfg_watch :: bool
  cfg_navigation :: "string option"
  cfg_favicon :: "string option"

text \<open>
  A configuration with every field optional: the configuration file as parsed, and the
  options of the command line (which add the path of the configuration file).
\<close>

record partialConfig =
  p_input :: "string option"
  p_output :: "string option"
  p_css :: "string list option"
  p_components :: "string option"
  p_assets :: "string option"
  p_theme :: "string option"
  p_baseUrl :: "string option"
  p_minify :: "bool option"
  p_sourceMaps :: "bool option"
  p_watch :: "bool option"
  p_navigation :: "string option"
  p_favicon :: "string option"

record cliOptions = partialConfig +
  opt_config :: string

record componentManifest =
  comp_name :: string
  comp_path :: string
  comp_dependencies :: "string list"
  comp_styles :: "string list"

record buildResult =
  pagesBuilt :: nat
  buildTime :: int
  errors :: "string list"
  warnings :: "string list"

section \<open>TemplateRenderer: escaping and head tags\<close>

text \<open>
  \<^verbatim>\<open>escapeHtml\<close>: every occurrence of one of the five characters is replaced by its
  entity; every other character is kept.
\<close>

definition escapeChar :: "char \<Rightarrow> string" where
  \<open>escapeChar c =
     (if c = CHR ''&'' then ''&amp;''
      else if c = CHR ''<'' then ''&lt;''
      else if c = CHR ''>'' then ''&gt;''
      else if c = CHR 0x22 then ''&quot;''
      else if c = CHR 0x27 then ''&#39;''
      else [c])\<close>

definition escapeHtml :: "string \<Rightarrow> string" where
  "escapeHtml s = concat (map escapeChar s)"

text \<open>The optional sharing fields of a meta block (\<^verbatim>\<open>meta.sharing?.title\<close> ...).\<close>

definition sharing_field :: "(pageSharing \<Rightarrow> string option) \<Rightarrow> pageMeta \<Rightarrow> string option" where
  "sharing_field f m = (case sharing m of None \<Rightarrow> None | Some s \<Rightarrow> f s)"

text \<open>One tag when the optional string is truthy, none otherwise.\<close>

fun tag_if :: "string option \<Rightarrow> (string \<Rightarrow> string) \<Rightarrow> string list" where
  "tag_if None f = []"
| "tag_if (Some s) f = (if s = [] then [] else [f s])"

definition generateMetaTags :: "('b, 'n, 'z) pageConfig_scheme \<Rightarrow> string" where
  \<open>generateMetaTags pageConfig =
     (case meta pageConfig of
        None \<Rightarrow> []
      | Some m \<Rightarrow>
          (let s_title = sharing_field sharing_title m;
               s_description = sharing_field sharing_description m;
               s_image = sharing_field sharing_image m;
               og_tags =
                 tag_if s_title (\<lambda>v. ''<meta property="og:title" content="'' @ escapeHtml v @ ''">'')
                 @ tag_if s_description
                     (\<lambda>v. ''<meta property="og:description" content="'' @ escapeHtml v @ ''">'')
                 @ tag_if s_image (\<lambda>v. ''<meta property="og:image" content="'' @ escapeHtml v @ ''">'');
               twitter_tags =
                 (if truthy s_title \<or> truthy s_description then
                    [''<meta name="twitter:card" content="summary_large_image">'']
                    @ tag_if s_title
                        (\<lambda>v. ''<meta name="twitter:title" content="'' @ escapeHtml v @ ''">'')
                    @ tag_if s_description
                        (\<lambda>v. ''<meta name="twitter:description" content="'' @ escapeHtml v @ ''">'')
                    @ tag_if s_image
                        (\<lambda>v. ''<meta name="twitter:image" content="'' @ escapeHtml v @ ''">'')
                  else []);
               keyword_tags =
                 (case meta_keywords m of
                    None \<Rightarrow> []
                  | Some ks \<Rightarrow>
                      if length ks > 0 then
                        [''<meta name="keywords" content="'' @ join '', '' ks @ ''">'']
                      else [])
           in join tag_sep (og_tags @ twitter_tags @ keyword_tags)))\<close>

text \<open>The MIME type of a local favicon, by the extension of its path.\<close>

definition favicon_mimeType :: "string option \<Rightarrow> string" where
  "favicon_mimeType extension =
     (if extension = Some ''png'' then ''image/png''
      else if extension = Some ''svg'' then ''image/svg+xml''
      else if extension = Some ''jpg'' \<or> extension = Some ''jpeg'' then ''image/jpeg''
      else if extension = Some ''gif'' then ''image/gif''
      else ''image/x-icon'')"

definition generateFaviconTags :: "'c builderConfig_scheme \<Rightarrow> string" where
  \<open>generateFaviconTags config =
     (if \<not> truthy (cfg_favicon config) then []
      else
        (let faviconPath = str_or (cfg_favicon config) [];
             isUrl = (startsWith faviconPath ''http://'' \<or> startsWith faviconPath ''https://'')
         in if isUrl then
              join tag_sep [''<link rel="icon" href="'' @ escapeHtml faviconPath @ ''">'']
            else
              (let extension = pop (split_char CHR ''.'' (toLowerCase faviconPath));
                   mimeType = favicon_mimeType extension;
                   faviconFilename =
                     (if js_includes faviconPath ''/'' then
                        (case pop (split_char CHR ''/'' faviconPath) of
                           None \<Rightarrow> ''undefined''
                         | Some f \<Rightarrow> f)
                      else faviconPath);
                   faviconUrl = ''assets/'' @ faviconFilename
               in join tag_sep
                    ([''<link rel="icon" type="'' @ mimeType @ ''" href="''
                        @ escapeHtml faviconUrl @ ''">'']
                     @ (if extension = Some ''ico'' then
                          [''<link rel="shortcut icon" href="'' @ escapeHtml faviconUrl @ ''">'']
                        else [])))))\<close>

text \<open>\<^verbatim>\<open>generateAnalyticsCode\<close>: the configuration as source text.\<close>

definition analytics_parts :: "analyticsConfig \<Rightarrow> string list" where
  "analytics_parts a =
     tag_if (sendEvents a) (\<lambda>src. ''sendEvents: '' @ src)
     @ (case autoEvents a of
          None \<Rightarrow> []
        | Some b \<Rightarrow> [''autoEvents: '' @ (if b then ''true'' else ''false'')])"

definition generateAnalyticsCode :: "analyticsConfig option \<Rightarrow> string" where
  "generateAnalyticsCode analytics =
     (case analytics of
        None \<Rightarrow> ''undefined''
      | Some a \<Rightarrow> ''{ '' @ join '', '' (analytics_parts a) @ '' }'')"

section \<open>TemplateRenderer: the document\<close>

text \<open>
  The constant text of the document template of \<^verbatim>\<open>generateHTML\<close>, cut at its
  interpolations, in order: up to the theme attribute (0), up to the title (1), up to the
  description (2), up to the base tag (3), to the favicon tags (4), to the meta tags (5),
  to the generated stylesheets (6), to the page's stylesheets (7), the style block up to
  the root container (8), from the root container to the serialized page (9), to the
  theme of the hydration call (10), to the navigation data (11), to the analytics
  configuration (12), to the page's scripts (13), and the end of the document (14).
\<close>

definition html_part0 :: string where
  \<open>html_part0 =
     join nl
      [''<!DOCTYPE html>'',
       ''<html lang="en" data-theme="'']\<close>

definition html_part1 :: string where
  \<open>html_part1 =
     join nl
      [''">'',
       ''<head>'',
       ''    <meta charset="UTF-8">'',
       ''    <meta name="viewport" content="width=device-width, initial-scale=1.0">'',
       ''    <title>'']\<close>

definition html_part2 :: string where
  \<open>html_part2 =
     join nl
      [''</title>'',
       ''    <meta name="description" content="'']\<close>

definition html_part3 :: string where
  \<open>html_part3 =
     join nl
      [''">'',
       ''    '']\<close>

definition html_part4 :: string where
  \<open>html_part4 =
     join nl
      [[],
       ''    '',
       ''    <!-- Favicon -->'',
       ''    '']\<close>

definition html_part5 :: string where
  \<open>html_part5 =
     join nl
      [[],
       ''    '',
       ''    <!-- Page Meta Tags -->'',
       ''    '']\<close>

definition html_part6 :: string where
  \<open>html_part6 =
     join nl
      [[],
       ''    '',
       ''    <!-- Page Constructor Styles -->'',
       ''    '']\<close>

definition html_part7 :: string where
  \<open>html_part7 =
     join nl
      [[],
       ''    '',
       ''    <!-- Custom CSS -->'',
       ''    '']\<close>

definition html_part8 :: string where
  \<open>html_part8 =
     join nl
      [[],
       ''    '',
       ''    <style>'',
       ''        body {'',
       ''            margin: 0;'',
       ''            padding: 0;'',
       ''            font-family: -apple-system, BlinkMacSystemFont, 'Segoe UI', 'Roboto', 'Oxygen','',
       ''                'Ubuntu', 'Cantarell', 'Fira Sans', 'Droid Sans', 'Helvetica Neue','',
       ''                sans-serif;'',
       ''            -webkit-font-smoothing: antialiased;'',
       ''            -moz-osx-font-smoothing: grayscale;'',
       ''        }'',
       ''        '',
       ''        #root {'',
       ''            min-height: 100vh;'',
       ''        }'',
       ''        '',
       ''        /* Loading indicator */'',
       ''        .loading {'',
       ''            display: flex;'',
       ''            justify-content: center;'',
       ''            align-items: center;'',
       ''            min-height: 100vh;'',
       ''            font-family: -apple-system, BlinkMacSystemFont, 'Segoe UI', 'Roboto', sans-serif;'',
       ''            color: #666;'',
       ''        }'',
       ''        '',
       ''        .loading-spinner {'',
       ''            width: 40px;'',
       ''            height: 40px;'',
       ''            border: 3px solid #f3f3f3;'',
       ''            border-top: 3px solid #007acc;'',
       ''            border-radius: 50%;'',
       ''            animation: spin 1s linear infinite;'',
       ''            margin-right: 12px;'',
       ''        }'',
       ''        '',
       ''        @keyframes spin {'',
       ''            0% { transform: rotate(0deg); }'',
       ''            100% { transform: rotate(360deg); }'',
       ''        }'',
       ''        '',
       ''        /* Error styles */'',
       ''        .ssr-error {'',
       ''            padding: 20px;'',
       ''            margin: 20px;'',
       ''            border: 1px solid #f5c6cb;'',
       ''            border-radius: 4px;'',
       ''            background-color: #f8d7da;'',
       ''            color: #721c24;'',
       ''        }'',
       ''        '',
       ''        .ssr-error h2 {'',
       ''            margin-top: 0;'',
       ''            color: #721c24;'',
       ''        }'',
       ''        '',
       ''        .ssr-error details {'',
       ''            margin-top: 10px;'',
       ''        }'',
       ''        '',
       ''        .ssr-error pre {'',
       ''            background: #fff;'',
       ''            padding: 10px;'',
       ''            border-radius: 4px;'',
       ''            overflow-x: auto;'',
       ''        }'',
       ''    </style>'',
       ''</head>'',
       ''<body>'',
       ''    '']\<close>

definition html_part9 :: string where
  \<open>html_part9 =
     join nl
      [[],
       ''    '',
       ''    <!-- Page Constructor Client Bundle -->'',
       ''    <script src="client.js"></script>'',
       ''    '',
       ''    <script>'',
       ''        // Page configuration'',
       ''        const pageConfig = '']\<close>

definition html_part10 :: string where
  \<open>html_part10 =
     join nl
      ['';'',
       ''        '',
       ''        // Initialize Page Constructor when client bundle loads'',
       ''        function initializePageConstructor() {'',
       ''            if (typeof window.hydratePageConstructor === 'function') {'',
       ''                try {'',
       ''                    window.hydratePageConstructor({'',
       ''                        pageConfig: pageConfig,'',
       ''                        theme: '' @ [CHR 0x27]]\<close>

definition html_part11 :: string where
  \<open>html_part11 =
     join nl
      [[CHR 0x27] @ '','',
       ''                        navigation: '']\<close>

definition html_part12 :: string where
  \<open>html_part12 =
     join nl
      ['','',
       ''                        analytics: '']\<close>

definition html_part13 :: string where
  \<open>html_part13 =
     join nl
      [[],
       ''                    });'',
       ''                } catch (error) {'',
       ''                    console.error('Error initializing Page Constructor:', error);'',
       ''                    '',
       ''                    // Show error message'',
       ''                    const rootElement = document.getElementById('root');'',
       ''                    if (rootElement) {'',
       ''                        rootElement.innerHTML = `'',
       ''                            <div class="ssr-error">'',
       ''                                <h2>Error Loading Page Constructor</h2>'',
       ''                                <p>${error.message}</p>'',
       ''                                <details>'',
       ''                                    <summary>Debug Information</summary>'',
       ''                                    <pre>${JSON.stringify({'',
       ''                                        userAgent: navigator.userAgent,'',
       ''                                        pageConfig: pageConfig,'',
       ''                                        error: error.message'',
       ''                                    }, null, 2)}</pre>'',
       ''                                </details>'',
       ''                            </div>'',
       ''                        `;'',
       ''                    }'',
       ''                }'',
       ''            } else {'',
       ''                // Retry after a short delay if client bundle isn't loaded yet'',
       ''                setTimeout(initializePageConstructor, 100);'',
       ''            }'',
       ''        }'',
       ''        '',
       ''        // Start initialization when page loads'',
       ''        if (document.readyState === 'loading') {'',
       ''            document.addEventListener('DOMContentLoaded', initializePageConstructor);'',
       ''        } else {'',
       ''            initializePageConstructor();'',
       ''        }'',
       ''    </script>'',
       ''    '',
       ''    <!-- Custom JavaScript -->'',
       ''    '']\<close>

definition html_part14 :: string where
  \<open>html_part14 =
     join nl
      [[],
       ''</body>'',
       ''</html>'']\<close>


text \<open>The root container, and the loading indicator shown when there is no markup.\<close>

definition root_open :: string where
  \<open>root_open = ''<div id="root">''\<close>

definition root_close :: string where
  \<open>root_close = ''</div>''\<close>

definition loading_indicator :: string where
  \<open>loading_indicator =
     join nl
      [[],
       ''        <div class="loading">'',
       ''            <div class="loading-spinner"></div>'',
       ''            Loading Page Constructor...'',
       ''        </div>'',
       ''    '']\<close>

definition stylesheet_link :: "string \<Rightarrow> string" where
  \<open>stylesheet_link href = ''<link rel="stylesheet" href="'' @ href @ ''">''\<close>

definition script_tag :: "string \<Rightarrow> string" where
  \<open>script_tag src = ''<script src="'' @ src @ ''"></script>''\<close>

text \<open>\<^verbatim>\<open>xs || []\<close> for an optional list.\<close>

fun list_or_empty :: "'a list option \<Rightarrow> 'a list" where
  "list_or_empty None = []"
| "list_or_empty (Some xs) = xs"

text \<open>\<^verbatim>\<open>pageConfig.meta?.title\<close> and \<^verbatim>\<open>pageConfig.meta?.description\<close>.\<close>

definition meta_field :: "(pageMeta \<Rightarrow> 'a option) \<Rightarrow> ('b, 'n, 'z) pageConfig_scheme \<Rightarrow> 'a option" where
  "meta_field f pageConfig = (case meta pageConfig of None \<Rightarrow> None | Some m \<Rightarrow> f m)"

text \<open>
  \<^verbatim>\<open>generateHTML\<close>. The two calls of \<^verbatim>\<open>JSON.stringify\<close> (of the page and of the
  navigation data, which may be \<^verbatim>\<open>undefined\<close>) are the parameters \<open>json_page\<close> and
  \<open>json_nav\<close>.
\<close>

definition generateHTML ::
  "(('b, 'n, 'z) pageConfig_scheme \<Rightarrow> string) \<Rightarrow> ('n option \<Rightarrow> string) \<Rightarrow> 'c builderConfig_scheme
   \<Rightarrow> ('b, 'n, 'z) pageConfig_scheme \<Rightarrow> 'n option \<Rightarrow> string option \<Rightarrow> string list
   \<Rightarrow> analyticsConfig option \<Rightarrow> string" where
  \<open>generateHTML json_page json_nav config pageConfig nav prerenderedContent generatedCSSFiles
       analytics =
     (let title_text = escapeHtml (str_or (meta_field title pageConfig) ''Page Constructor Builder'');
          description_text = escapeHtml (str_or (meta_field description pageConfig) []);
          theme = str_or (cfg_theme config) ''light'';
          baseUrl = str_or (cfg_baseUrl config) ''/'';
          metaTags = generateMetaTags pageConfig;
          faviconTags = generateFaviconTags config;
          baseHref = (if baseUrl \<noteq> ''/'' then ''<base href="'' @ baseUrl @ ''">'' else [])
      in html_part0 @ theme
         @ html_part1 @ title_text
         @ html_part2 @ description_text
         @ html_part3 @ baseHref
         @ html_part4 @ faviconTags
         @ html_part5 @ metaTags
         @ html_part6 @ join tag_sep (map stylesheet_link generatedCSSFiles)
         @ html_part7 @ join tag_sep (map stylesheet_link (list_or_empty (css pageConfig)))
         @ html_part8
         @ root_open @ str_or prerenderedContent loading_indicator @ root_close
         @ html_part9 @ json_page pageConfig
         @ html_part10 @ theme
         @ html_part11 @ json_nav nav
         @ html_part12 @ generateAnalyticsCode analytics
         @ html_part13 @ join tag_sep (map script_tag (list_or_empty (js pageConfig)))
         @ html_part14)\<close>

section \<open>Exceptions, the console and the file system\<close>

text \<open>
  A thrown value is an \<^verbatim>\<open>Error\<close> object with its message, or some other value (a
  string, a number), given by its string conversion. Where the source reads
  \<^verbatim>\<open>(error as Error).message\<close> it asserts that the caught value is an object with a
  message; \<^verbatim>\<open>null\<close> and \<^verbatim>\<open>undefined\<close>, on which that read would itself throw, are not
  among the thrown values of this model.
\<close>

datatype thrown = JsError string | JsOther string

text \<open>\<^verbatim>\<open>error instanceof Error ? error.message : String(error)\<close>.\<close>

fun errorMessage :: "thrown \<Rightarrow> string" where
  "errorMessage (JsError m) = m"
| "errorMessage (JsOther v) = v"

text \<open>
  \<^verbatim>\<open>(error as Error).message\<close> put into a template or printed: the message of an
  \<^verbatim>\<open>Error\<close>, and \<^verbatim>\<open>undefined\<close> for a value without that property.
\<close>

fun message_text :: "thrown \<Rightarrow> string" where
  "message_text (JsError m) = m"
| "message_text (JsOther v) = ''undefined''"

datatype level = Log | Warn | Err

text \<open>Symbols printed in log lines, as UTF-8 bytes.\<close>

definition check_mark :: string where
  "check_mark = [CHR 0xE2, CHR 0x9C, CHR 0x93]"

definition warning_sign :: string where
  "warning_sign = [CHR 0xE2, CHR 0x9A, CHR 0xA0]"

text \<open>
  The render function a loaded server bundle exports: page, theme, navigation and
  analytics configuration to markup, or a thrown value.
\<close>

type_synonym ('b, 'n, 'z) renderPage =
  "('b, 'n, 'z) pageConfig_scheme \<Rightarrow> string \<Rightarrow> 'n option \<Rightarrow> analyticsConfig option
   \<Rightarrow> thrown + string"

text \<open>
  The state a build runs in: the regular files with their contents, the directories,
  the paths on which a write or a removal fails (with the message of the error), the
  lines printed to the console, and the fields of the builder objects
  (\<^verbatim>\<open>WebpackBuilder.generatedAssets\<close>, \<^verbatim>\<open>WebpackBuilder.serverBundleAssets\<close>,
  \<^verbatim>\<open>SSRRenderer.serverModule\<close>).
\<close>

record ('b, 'n, 'z) state =
  files :: "string \<Rightarrow> string option"
  dirs :: "string set"
  denied :: "string \<Rightarrow> string option"
  console :: "(level \<times> string) list"
  generatedAssets :: "string list"
  serverBundleAssets :: "string list"
  serverModule :: "('b, 'n, 'z) renderPage option"

text \<open>
  An asynchronous method is a function from the state to its outcome (a thrown value or
  a result) and the state it leaves. Steps are sequenced with \<open>andThen\<close>, which stops
  at the first thrown value as \<^verbatim>\<open>await\<close> does.
\<close>

type_synonym ('a, 's) action = "'s \<Rightarrow> (thrown + 'a) \<times> 's"

definition ret :: "'a \<Rightarrow> ('a, 's) action" where
  "ret a s = (Inr a, s)"

definition throw :: "thrown \<Rightarrow> ('a, 's) action" where
  "throw e s = (Inl e, s)"

definition andThen :: "('a, 's) action \<Rightarrow> ('a \<Rightarrow> ('b, 's) action) \<Rightarrow> ('b, 's) action" where
  "andThen m f s = (case m s of (Inl e, s') \<Rightarrow> (Inl e, s') | (Inr a, s') \<Rightarrow> f a s')"

text \<open>\<^verbatim>\<open>try { m } finally { fin }\<close>: a throw of the finally block replaces the outcome.\<close>

definition tryFinally :: "('a, 's) action \<Rightarrow> (unit, 's) action \<Rightarrow> ('a, 's) action" where
  "tryFinally m fin s =
     (case m s of
        (r, s') \<Rightarrow> (case fin s' of (Inl e, s'') \<Rightarrow> (Inl e, s'') | (Inr u, s'') \<Rightarrow> (r, s'')))"

definition console_print :: "level \<Rightarrow> string \<Rightarrow> (unit, ('b, 'n, 'z, 'w) state_scheme) action" where
  "console_print lvl line s = (Inr (), s\<lparr>console := console s @ [(lvl, line)]\<rparr>)"

text \<open>The file system calls the builder makes on single files.\<close>

definition pathExists :: "string \<Rightarrow> ('b, 'n, 'z, 'w) state_scheme \<Rightarrow> bool" where
  "pathExists p s = (files s p \<noteq> None \<or> p \<in> dirs s)"

definition readFile :: "string \<Rightarrow> (string, ('b, 'n, 'z, 'w) state_scheme) action" where
  "readFile p s =
     (case files s p of
        None \<Rightarrow> (Inl (JsError (''ENOENT: no such file or directory, open '' @ [CHR 0x27] @ p @ [CHR 0x27])), s)
      | Some content \<Rightarrow> (Inr content, s))"

definition writeFile :: "string \<Rightarrow> string \<Rightarrow> (unit, ('b, 'n, 'z, 'w) state_scheme) action" where
  "writeFile p content s =
     (case denied s p of
        Some msg \<Rightarrow> (Inl (JsError msg), s)
      | None \<Rightarrow> (Inr (), s\<lparr>files := (files s)(p \<mapsto> content)\<rparr>))"

definition unlink :: "string \<Rightarrow> (unit, ('b, 'n, 'z, 'w) state_scheme) action" where
  "unlink p s =
     (case denied s p of
        Some msg \<Rightarrow> (Inl (JsError msg), s)
      | None \<Rightarrow>
          (case files s p of
             None \<Rightarrow>
               (Inl (JsError ((if p \<in> dirs s then ''EPERM: operation not permitted, unlink ''
                               else ''ENOENT: no such file or directory, unlink '')
                              @ [CHR 0x27] @ p @ [CHR 0x27])), s)
           | Some content \<Rightarrow> (Inr (), s\<lparr>files := (files s)(p := None)\<rparr>)))"

text \<open>
  \<^verbatim>\<open>fs.remove\<close>: afterwards nothing exists at the path; no error when nothing did.
\<close>

definition remove_file :: "string \<Rightarrow> (unit, ('b, 'n, 'z, 'w) state_scheme) action" where
  "remove_file p s =
     (case denied s p of
        Some msg \<Rightarrow> (Inl (JsError msg), s)
      | None \<Rightarrow> (Inr (), s\<lparr>files := (files s)(p := None), dirs := dirs s - {p}\<rparr>))"

section \<open>External collaborators\<close>

text \<open>
  What the builder calls outside this repository, as parameters of the model: the JSON
  serializer, the content transformer of the component framework, the YAML parser (at
  the types it is used at), the console's rendering of a thrown value, Node's
  \<^verbatim>\<open>path\<close> functions, \<^verbatim>\<open>glob\<close>, \<^verbatim>\<open>fs.ensureDir\<close> and \<^verbatim>\<open>fs.copy\<close> (with the
  filter of \<^verbatim>\<open>copyStaticAssets\<close> or without), \<^verbatim>\<open>require\<close> of a freshly built server
  bundle, one run of the bundler, the matches of the import pattern in a source text,
  and the start of the file watcher (the import of \<^verbatim>\<open>chokidar\<close> and its \<^verbatim>\<open>watch\<close>).
  \<open>packageRoot\<close> is the directory \<^verbatim>\<open>getPackageRoot\<close> finds by walking up from
  \<^verbatim>\<open>__dirname\<close> (\<open>module_dirname\<close>): it depends on where the package is installed.
\<close>

datatype target = Web | Node

record webpackStats =
  stats_errors :: "string list"
  stats_warnings :: "string list"
  stats_assets :: "string list option"

datatype webpackOutcome = CompilerError thrown | Stats "webpackStats option"

record ('b, 'n, 'z) collaborators =
  json_page :: "('b, 'n, 'z) pageConfig_scheme \<Rightarrow> string"
  json_nav :: "'n option \<Rightarrow> string"
  contentTransformer :: "('b, 'n, 'z) pageConfig_scheme \<Rightarrow> thrown + ('b, 'n, 'z) pageConfig_scheme"
  yaml_page :: "string \<Rightarrow> thrown + ('b, 'n, 'z) pageConfig_scheme"
  yaml_nav :: "string \<Rightarrow> thrown + 'n"
  yaml_config :: "string \<Rightarrow> thrown + partialConfig"
  inspect :: "thrown \<Rightarrow> string"
  path_join :: "string list \<Rightarrow> string"
  path_resolve :: "string list \<Rightarrow> string"
  path_relative :: "string \<Rightarrow> string \<Rightarrow> string"
  path_basename :: "string \<Rightarrow> string option \<Rightarrow> string"
  path_extname :: "string \<Rightarrow> string"
  path_dirname :: "string \<Rightarrow> string"
  path_isAbsolute :: "string \<Rightarrow> bool"
  glob :: "string \<Rightarrow> (string list, ('b, 'n, 'z) state) action"
  fs_ensureDir :: "string \<Rightarrow> (unit, ('b, 'n, 'z) state) action"
  fs_copy :: "bool \<Rightarrow> string \<Rightarrow> string \<Rightarrow> (unit, ('b, 'n, 'z) state) action"
  require_module :: "string \<Rightarrow> (('b, 'n, 'z) renderPage, ('b, 'n, 'z) state) action"
  webpack :: "target \<Rightarrow> string \<Rightarrow> ('b, 'n, 'z) state \<Rightarrow> webpackOutcome \<times> ('b, 'n, 'z) state"
  import_matches :: "string \<Rightarrow> string list"
  chokidar_watch :: "string list \<Rightarrow> thrown option"
  packageRoot :: "('b, 'n, 'z) state \<Rightarrow> string"
  module_dirname :: string

section \<open>SSRRenderer\<close>

text \<open>
  \<^verbatim>\<open>loadServerBundle\<close>: fails when \<^verbatim>\<open>server.js\<close> is absent from the output directory,
  otherwise loads the bundle afresh and keeps the module.
\<close>

definition loadServerBundle ::
  "('b, 'n, 'z) collaborators \<Rightarrow> 'c builderConfig_scheme \<Rightarrow> (unit, ('b, 'n, 'z) state) action" where
  "loadServerBundle c config s =
     (let serverBundlePath = path_resolve c [cfg_output config, ''server.js'']
      in if \<not> pathExists serverBundlePath s then
           throw (JsError (''Server bundle not found at '' @ serverBundlePath)) s
         else
           andThen (require_module c serverBundlePath)
             (\<lambda>m s'. console_print Log (check_mark @ '' Server bundle loaded successfully'')
                       (s'\<lparr>serverModule := Some m\<rparr>)) s)"

text \<open>\<^verbatim>\<open>filename || pageConfig.meta?.title || 'Untitled'\<close>, the name used in log lines.\<close>

definition page_label :: "string option \<Rightarrow> ('b, 'n, 'z) pageConfig_scheme \<Rightarrow> string" where
  "page_label filename pageConfig =
     str_or filename (str_or (meta_field title pageConfig) ''Untitled'')"

text \<open>The fragment \<^verbatim>\<open>renderToHTML\<close> returns when the render function has thrown.\<close>

definition ssr_fallback :: "string \<Rightarrow> string" where
  \<open>ssr_fallback msg =
     join nl
      [[],
       ''                <div class="ssr-error">'',
       ''                    <h2>Server-Side Rendering Error</h2>'',
       ''                    <p>The page will be rendered on the client side.</p>'',
       ''                    <details>'',
       ''                        <summary>Error Details</summary>'',
       ''                        <pre>'' @ msg @ ''</pre>'',
       ''                    </details>'',
       ''                </div>'',
       ''            '']\<close>

definition renderToHTML ::
  "('b, 'n, 'z) collaborators \<Rightarrow> 'c builderConfig_scheme \<Rightarrow> ('b, 'n, 'z) pageConfig_scheme
   \<Rightarrow> 'n option \<Rightarrow> string option \<Rightarrow> analyticsConfig option
   \<Rightarrow> (string, ('b, 'n, 'z) state) action" where
  "renderToHTML c config pageConfig nav filename analytics s =
     (case serverModule s of
        None \<Rightarrow> throw (JsError ''Server bundle not loaded. Call loadServerBundle() first.'') s
      | Some renderPage \<Rightarrow>
          (case renderPage pageConfig (str_or (cfg_theme config) ''light'') nav analytics of
             Inr htmlContent \<Rightarrow>
               andThen
                 (console_print Log
                    (check_mark @ '' SSR rendered page: '' @ page_label filename pageConfig))
                 (\<lambda>u. ret htmlContent) s
           | Inl e \<Rightarrow>
               andThen (console_print Err (''SSR rendering error: '' @ inspect c e))
                 (\<lambda>u. ret (ssr_fallback (message_text e))) s))"

section \<open>TemplateRenderer: rendering a page\<close>

text \<open>
  \<^verbatim>\<open>transformPageContent\<close>: the page with its blocks replaced by those of the
  transformed content, or the page itself when the transformer throws.
\<close>

definition transformPageContent ::
  "('b, 'n, 'z) collaborators \<Rightarrow> ('b, 'n, 'z) pageConfig_scheme \<Rightarrow> string option
   \<Rightarrow> (('b, 'n, 'z) pageConfig_scheme, ('b, 'n, 'z) state) action" where
  "transformPageContent c pageConfig filename =
     (case contentTransformer c pageConfig of
        Inr transformedContent \<Rightarrow>
          andThen
            (console_print Log
               (check_mark @ '' Transformed markdown for page: '' @ page_label filename pageConfig))
            (\<lambda>u. ret (pageConfig\<lparr>blocks := blocks transformedContent\<rparr>))
      | Inl e \<Rightarrow>
          andThen
            (console_print Warn
               (warning_sign @ '' Warning: Failed to transform content for SSR ''
                @ page_label filename pageConfig @ '': '' @ message_text e))
            (\<lambda>u. ret pageConfig))"

definition render ::
  "('b, 'n, 'z) collaborators \<Rightarrow> 'c builderConfig_scheme \<Rightarrow> ('b, 'n, 'z) pageConfig_scheme
   \<Rightarrow> 'n option \<Rightarrow> componentManifest list \<Rightarrow> string list \<Rightarrow> string option
   \<Rightarrow> analyticsConfig option \<Rightarrow> (string, ('b, 'n, 'z) state) action" where
  "render c config pageConfig nav componentManifest generatedCSSFiles filename analytics =
     andThen (loadServerBundle c config)
       (\<lambda>u. andThen (transformPageContent c pageConfig filename)
          (\<lambda>transformedPageConfig.
             andThen (renderToHTML c config transformedPageConfig nav filename analytics)
               (\<lambda>prerenderedContent.
                  ret (generateHTML (json_page c) (json_nav c) config transformedPageConfig nav
                         (Some prerenderedContent) generatedCSSFiles analytics))))"

section \<open>WebpackBuilder\<close>

text \<open>
  The constant text of the two synthesized entry modules, cut at their interpolations.
\<close>

definition client_entry_part0 :: string where
  \<open>client_entry_part0 =
     join nl
      [[],
       ''// Client entry for Page Constructor'',
       ''import {hydratePageConstructor} from '' @ [CHR 0x27]]\<close>

definition client_entry_part1 :: string where
  \<open>client_entry_part1 =
     join nl
      [[CHR 0x27] @ '';'',
       [],
       ''// Page Constructor core styles (force ESM imports)'',
       ''import '@gravity-ui/page-constructor/styles/styles.scss';'',
       ''import '@gravity-ui/uikit/styles/fonts.scss';'',
       ''import '@gravity-ui/uikit/styles/styles.scss';'',
       [],
       ''// Custom CSS imports'',
       []]\<close>

definition client_entry_part2 :: string where
  \<open>client_entry_part2 =
     join nl
      [[],
       [],
       ''// Custom component imports'',
       []]\<close>

definition client_entry_part3 :: string where
  \<open>client_entry_part3 =
     join nl
      [[],
       [],
       ''// Component styles'',
       []]\<close>

definition client_entry_part4 :: string where
  \<open>client_entry_part4 =
     join nl
      [[],
       [],
       ''// Create custom components object'',
       ''const customComponents = {'',
       []]\<close>

definition client_entry_part5 :: string where
  \<open>client_entry_part5 =
     join nl
      [[],
       ''};'',
       [],
       ''// Analytics configuration'',
       ''const analyticsConfig = '']\<close>

definition client_entry_part6 :: string where
  \<open>client_entry_part6 =
     join nl
      ['';'',
       [],
       ''// Make hydratePageConstructor available globally with custom components'',
       ''declare global {'',
       ''    interface Window {'',
       ''        hydratePageConstructor: (options: {pageConfig: any, customComponents?: any, theme?: string, navigation?: any, analytics?: any}) => void;'',
       ''    }'',
       ''}'',
       [],
       ''window.hydratePageConstructor = (options: {pageConfig: any, customComponents?: any, theme?: string, navigation?: any, analytics?: any}) => {'',
       ''    hydratePageConstructor({'',
       ''        pageConfig: options.pageConfig,'',
       ''        customComponents: options.customComponents || customComponents,'',
       ''        theme: options.theme,'',
       ''        navigation: options.navigation,'',
       ''        analytics: options.analytics || analyticsConfig,'',
       ''    });'',
       ''};'',
       [],
       ''console.log('' @ [CHR 0x27] @ check_mark @ '' Client bundle loaded with custom components:', Object.keys(customComponents));'',
       []]\<close>

definition server_entry_part0 :: string where
  \<open>server_entry_part0 =
     join nl
      [[],
       ''// Server entry for Page Constructor SSR'',
       ''import {renderPageToString} from '' @ [CHR 0x27]]\<close>

definition server_entry_part1 :: string where
  \<open>server_entry_part1 =
     join nl
      [[CHR 0x27] @ '';'',
       [],
       ''// Custom component imports'',
       []]\<close>

definition server_entry_part2 :: string where
  \<open>server_entry_part2 =
     join nl
      [[],
       [],
       ''// Create custom components object'',
       ''const customComponents = {'',
       []]\<close>

definition server_entry_part3 :: string where
  \<open>server_entry_part3 =
     join nl
      [[],
       ''};'',
       [],
       ''// Analytics configuration'',
       ''const analyticsConfig = '']\<close>

definition server_entry_part4 :: string where
  \<open>server_entry_part4 =
     join nl
      ['';'',
       [],
       ''// Export render function with custom components'',
       ''export function renderPage(pageConfig: any, theme?: string, navigation?: any, analytics?: any): string {'',
       ''    return renderPageToString({'',
       ''        pageConfig,'',
       ''        customComponents,'',
       ''        theme,'',
       ''        navigation,'',
       ''        analytics: analytics || analyticsConfig,'',
       ''    });'',
       ''}'',
       [],
       ''export default renderPage;'',
       []]\<close>


definition import_line :: "string \<Rightarrow> string" where
  "import_line resolvedPath = ''import '' @ [CHR 0x27] @ resolvedPath @ [CHR 0x27] @ '';''"

definition component_import :: "('b, 'n, 'z) collaborators \<Rightarrow> componentManifest \<Rightarrow> string" where
  "component_import c component =
     ''import '' @ comp_name component @ '' from '' @ [CHR 0x27]
     @ path_resolve c [comp_path component]
     @ [CHR 0x27] @ '';''"

definition component_entry :: "componentManifest \<Rightarrow> string" where
  "component_entry component =
     ''  '' @ [CHR 0x27] @ comp_name component @ [CHR 0x27] @ '': '' @ comp_name component"

text \<open>
  \<^verbatim>\<open>analyticsConfig ? this.generateAnalyticsCode(analyticsConfig) : 'undefined'\<close>, with
  the \<^verbatim>\<open>generateAnalyticsCode\<close> of \<^verbatim>\<open>WebpackBuilder\<close>.
\<close>

definition entry_analytics_code :: "analyticsConfig option \<Rightarrow> string" where
  "entry_analytics_code analytics =
     (case analytics of
        None \<Rightarrow> ''undefined''
      | Some a \<Rightarrow> ''{ '' @ join '', '' (analytics_parts a) @ '' }'')"

definition clientEntryContent ::
  "('b, 'n, 'z) collaborators \<Rightarrow> 'c builderConfig_scheme \<Rightarrow> componentManifest list
   \<Rightarrow> analyticsConfig option \<Rightarrow> string" where
  "clientEntryContent c config componentManifest analytics =
     client_entry_part0 @ path_resolve c [module_dirname c, ''entries/client'']
     @ client_entry_part1
     @ join nl (map (\<lambda>cssPath. import_line (path_resolve c [cssPath]))
                  (list_or_empty (cfg_css config)))
     @ client_entry_part2 @ join nl (map (component_import c) componentManifest)
     @ client_entry_part3
     @ join nl (map (\<lambda>stylePath. import_line (path_resolve c [stylePath]))
                  (concat (map comp_styles componentManifest)))
     @ client_entry_part4 @ join ('','' @ nl) (map component_entry componentManifest)
     @ client_entry_part5 @ entry_analytics_code analytics
     @ client_entry_part6"

definition serverEntryContent ::
  "('b, 'n, 'z) collaborators \<Rightarrow> componentManifest list \<Rightarrow> analyticsConfig option \<Rightarrow> string" where
  "serverEntryContent c componentManifest analytics =
     server_entry_part0 @ path_resolve c [module_dirname c, ''entries/server'']
     @ server_entry_part1 @ join nl (map (component_import c) componentManifest)
     @ server_entry_part2 @ join ('','' @ nl) (map component_entry componentManifest)
     @ server_entry_part3 @ entry_analytics_code analytics
     @ server_entry_part4"

text \<open>The paths of the two temporary entry files, under the package root.\<close>

definition clientEntryPath :: "('b, 'n, 'z) collaborators \<Rightarrow> ('b, 'n, 'z) state \<Rightarrow> string" where
  "clientEntryPath c s = path_join c [packageRoot c s, ''temp-client-entry.tsx'']"

definition serverEntryPath :: "('b, 'n, 'z) collaborators \<Rightarrow> ('b, 'n, 'z) state \<Rightarrow> string" where
  "serverEntryPath c s = path_join c [packageRoot c s, ''temp-server-entry.tsx'']"

definition createClientEntry ::
  "('b, 'n, 'z) collaborators \<Rightarrow> 'c builderConfig_scheme \<Rightarrow> componentManifest list
   \<Rightarrow> analyticsConfig option \<Rightarrow> (string, ('b, 'n, 'z) state) action" where
  "createClientEntry c config componentManifest analytics s =
     (let entryPath = clientEntryPath c s
      in andThen (writeFile entryPath (clientEntryContent c config componentManifest analytics))
           (\<lambda>u. ret entryPath) s)"

definition createServerEntry ::
  "('b, 'n, 'z) collaborators \<Rightarrow> componentManifest list \<Rightarrow> analyticsConfig option
   \<Rightarrow> (string, ('b, 'n, 'z) state) action" where
  "createServerEntry c componentManifest analytics s =
     (let entryPath = serverEntryPath c s
      in andThen (writeFile entryPath (serverEntryContent c componentManifest analytics))
           (\<lambda>u. ret entryPath) s)"

text \<open>\<^verbatim>\<open>name.endsWith(ending)\<close>.\<close>

definition endsWith :: "string \<Rightarrow> string \<Rightarrow> bool" where
  "endsWith s ending = startsWith (rev s) (rev ending)"

text \<open>
  \<^verbatim>\<open>runWebpack\<close>: one run of the bundler for a target, on the resolved entry path. A
  compiler error or reported compilation errors reject; warnings are printed; the
  emitted assets are recorded, the stylesheets of the browser target and every file of
  the server target.
\<close>

definition runWebpack ::
  "('b, 'n, 'z) collaborators \<Rightarrow> 'c builderConfig_scheme \<Rightarrow> target \<Rightarrow> string
   \<Rightarrow> (unit, ('b, 'n, 'z) state) action" where
  "runWebpack c config tgt entryPath s =
     (case webpack c tgt (path_resolve c [entryPath]) s of
        (CompilerError err, s1) \<Rightarrow> (Inl err, s1)
      | (Stats None, s1) \<Rightarrow> (Inr (), s1)
      | (Stats (Some stats), s1) \<Rightarrow>
          if stats_errors stats \<noteq> [] then
            (Inl (JsError (''Webpack compilation errors:'' @ nl @ join nl (stats_errors stats))), s1)
          else
            (let s2 = (if stats_warnings stats \<noteq> [] then
                         s1\<lparr>console := console s1 @
                              [(Warn, ''Webpack compilation warnings:'' @ nl
                                      @ join nl (stats_warnings stats))]\<rparr>
                       else s1);
                 s3 = (case stats_assets stats of
                         None \<Rightarrow> s2
                       | Some assetNames \<Rightarrow>
                           (case tgt of
                              Web \<Rightarrow>
                                s2\<lparr>generatedAssets :=
                                      filter (\<lambda>name. endsWith name ''.css'') assetNames\<rparr>
                            | Node \<Rightarrow>
                                s2\<lparr>serverBundleAssets :=
                                      map (\<lambda>name. path_resolve c [cfg_output config, name])
                                        assetNames\<rparr>))
             in (Inr (), s3)))"

text \<open>
  The finally block of \<^verbatim>\<open>WebpackBuilder.build\<close>: each entry file is removed when it
  exists. Both removals are attempted (\<^verbatim>\<open>Promise.all\<close> over two independent
  promises); the block throws when one of them does.
\<close>

definition remove_if_exists :: "string \<Rightarrow> (unit, ('b, 'n, 'z, 'w) state_scheme) action" where
  "remove_if_exists p s = (if pathExists p s then remove_file p s else (Inr (), s))"

definition remove_entries :: "string \<Rightarrow> string \<Rightarrow> (unit, ('b, 'n, 'z, 'w) state_scheme) action" where
  "remove_entries clientEntry serverEntry s =
     (case remove_if_exists clientEntry s of
        (r1, s1) \<Rightarrow>
          (case remove_if_exists serverEntry s1 of
             (r2, s2) \<Rightarrow> (case r1 of Inl e \<Rightarrow> (Inl e, s2) | Inr u \<Rightarrow> (r2, s2))))"

text \<open>The try block of \<^verbatim>\<open>WebpackBuilder.build\<close>: the two runs of the bundler.\<close>

definition bundleBoth ::
  "('b, 'n, 'z) collaborators \<Rightarrow> 'c builderConfig_scheme \<Rightarrow> string \<Rightarrow> string
   \<Rightarrow> (unit, ('b, 'n, 'z) state) action" where
  "bundleBoth c config clientEntry serverEntry =
     andThen (runWebpack c config Web clientEntry)
       (\<lambda>u. andThen (runWebpack c config Node serverEntry)
          (\<lambda>u. console_print Log
                 (check_mark @ '' Client and server bundles built successfully'')))"

definition webpackBuilder_build ::
  "('b, 'n, 'z) collaborators \<Rightarrow> 'c builderConfig_scheme \<Rightarrow> componentManifest list
   \<Rightarrow> analyticsConfig option \<Rightarrow> (unit, ('b, 'n, 'z) state) action" where
  "webpackBuilder_build c config componentManifest analytics =
     andThen (createClientEntry c config componentManifest analytics)
       (\<lambda>clientEntry.
          andThen (createServerEntry c componentManifest analytics)
            (\<lambda>serverEntry.
               tryFinally (bundleBoth c config clientEntry serverEntry)
                 (remove_entries clientEntry serverEntry)))"

section \<open>PageBuilder\<close>

text \<open>A count printed in a log line: the decimal digits of a natural number.\<close>

fun show_nat :: "nat \<Rightarrow> string" where
  "show_nat n =
     (if n < 10 then [char_of (48 + n)]
      else show_nat (n div 10) @ [char_of (48 + n mod 10)])"

declare show_nat.simps [simp del]

definition copyStaticAssets ::
  "('b, 'n, 'z) collaborators \<Rightarrow> 'c builderConfig_scheme \<Rightarrow> (unit, ('b, 'n, 'z) state) action" where
  "copyStaticAssets c config s =
     (if \<not> truthy (cfg_assets config) then (Inr (), s)
      else
        (let assetsDir = str_or (cfg_assets config) []
         in if \<not> pathExists assetsDir s then
              console_print Warn (''Assets directory not found: '' @ assetsDir) s
            else
              (let outputAssetsDir = path_join c [cfg_output config, ''assets'']
               in andThen (fs_copy c True assetsDir outputAssetsDir)
                    (\<lambda>u. console_print Log
                           (''Copied assets from '' @ assetsDir @ '' to '' @ outputAssetsDir)) s)))"

text \<open>
  \<^verbatim>\<open>copyFavicon\<close>: nothing for an absent favicon or an external URL; otherwise the
  file is looked up as an absolute path, in the assets directory, then relative to the
  working directory, and copied to \<^verbatim>\<open>assets/\<close> under the output directory.
\<close>

definition favicon_source ::
  "('b, 'n, 'z) collaborators \<Rightarrow> 'c builderConfig_scheme \<Rightarrow> string \<Rightarrow> ('b, 'n, 'z) state
   \<Rightarrow> string option" where
  "favicon_source c config faviconPath s =
     (if path_isAbsolute c faviconPath then Some faviconPath
      else if truthy (cfg_assets config)
              \<and> pathExists (path_join c [str_or (cfg_assets config) [], faviconPath]) s
           then Some (path_join c [str_or (cfg_assets config) [], faviconPath])
      else if pathExists faviconPath s then Some faviconPath
      else None)"

definition copyFavicon ::
  "('b, 'n, 'z) collaborators \<Rightarrow> 'c builderConfig_scheme \<Rightarrow> (unit, ('b, 'n, 'z) state) action" where
  "copyFavicon c config s =
     (if \<not> truthy (cfg_favicon config) then (Inr (), s)
      else
        (let faviconPath = str_or (cfg_favicon config) []
         in if startsWith faviconPath ''http://'' \<or> startsWith faviconPath ''https://'' then
              (Inr (), s)
            else
              (case favicon_source c config faviconPath s of
                 None \<Rightarrow> console_print Warn (''Favicon file not found: '' @ faviconPath) s
               | Some sourcePath \<Rightarrow>
                   (let faviconFilename = path_basename c sourcePath None;
                        outputPath = path_join c [cfg_output config, ''assets'', faviconFilename]
                    in andThen (fs_ensureDir c (path_dirname c outputPath))
                         (\<lambda>u. andThen (fs_copy c False sourcePath outputPath)
                            (\<lambda>u. console_print Log
                                   (''Copied favicon from '' @ sourcePath @ '' to '' @ outputPath)))
                         s))))"

definition findYamlFiles ::
  "('b, 'n, 'z) collaborators \<Rightarrow> 'c builderConfig_scheme \<Rightarrow> (string list, ('b, 'n, 'z) state) action" where
  "findYamlFiles c config = glob c (path_join c [cfg_input config, ''**/*.{yml,yaml}''])"

definition extractDependencies ::
  "('b, 'n, 'z) collaborators \<Rightarrow> string \<Rightarrow> (string list, ('b, 'n, 'z) state) action" where
  "extractDependencies c filePath =
     andThen (readFile filePath) (\<lambda>content. ret (import_matches c content))"

definition findComponentStyles ::
  "('b, 'n, 'z) collaborators \<Rightarrow> string \<Rightarrow> (string list, ('b, 'n, 'z) state) action" where
  "findComponentStyles c filePath s =
     (let dir = path_dirname c filePath;
          name = path_basename c filePath (Some (path_extname c filePath));
          styleFiles =
            [path_join c [dir, name @ ''.css''],
             path_join c [dir, name @ ''.scss''],
             path_join c [dir, name @ ''.sass'']]
      in (Inr (filter (\<lambda>styleFile. pathExists styleFile s) styleFiles), s))"

text \<open>The loop of \<^verbatim>\<open>loadComponents\<close> over the component files.\<close>

fun componentManifests ::
  "('b, 'n, 'z) collaborators \<Rightarrow> string list \<Rightarrow> (componentManifest list, ('b, 'n, 'z) state) action" where
  "componentManifests c [] s = (Inr [], s)"
| "componentManifests c (file # rest) s =
     (case extractDependencies c file s of
        (Inl e, s1) \<Rightarrow> (Inl e, s1)
      | (Inr dependencies, s1) \<Rightarrow>
          (case findComponentStyles c file s1 of
             (Inl e, s2) \<Rightarrow> (Inl e, s2)
           | (Inr styles, s2) \<Rightarrow>
               (case componentManifests c rest s2 of
                  (Inl e, s3) \<Rightarrow> (Inl e, s3)
                | (Inr manifest, s3) \<Rightarrow>
                    (Inr (\<lparr>comp_name = path_basename c file (Some (path_extname c file)),
                            comp_path = file,
                            comp_dependencies = dependencies,
                            comp_styles = styles\<rparr> # manifest), s3))))"

definition loadComponents ::
  "('b, 'n, 'z) collaborators \<Rightarrow> 'c builderConfig_scheme
   \<Rightarrow> (componentManifest list, ('b, 'n, 'z) state) action" where
  "loadComponents c config s =
     (if \<not> truthy (cfg_components config) then (Inr [], s)
      else
        (let componentsDir = str_or (cfg_components config) []
         in if \<not> pathExists componentsDir s then (Inr [], s)
            else
              andThen (glob c (path_join c [componentsDir, ''**/*.{ts,tsx,js,jsx}'']))
                (componentManifests c) s))"

text \<open>The navigation file of \<^verbatim>\<open>buildPage\<close>: read and parsed when one is configured.\<close>

definition loadNavigation ::
  "('b, 'n, 'z) collaborators \<Rightarrow> 'c builderConfig_scheme \<Rightarrow> ('n option, ('b, 'n, 'z) state) action" where
  "loadNavigation c config s =
     (if \<not> truthy (cfg_navigation config) then (Inr None, s)
      else
        andThen (readFile (str_or (cfg_navigation config) []))
          (\<lambda>navigationContent s1.
             (case yaml_nav c navigationContent of
                Inl e \<Rightarrow> (Inl e, s1)
              | Inr nav \<Rightarrow> (Inr (Some nav), s1))) s)"

text \<open>The name and the path of the HTML file written for a page file.\<close>

definition outputName :: "('b, 'n, 'z) collaborators \<Rightarrow> 'c builderConfig_scheme \<Rightarrow> string \<Rightarrow> string" where
  "outputName c config yamlFile =
     (let relativePath = path_relative c (cfg_input config) yamlFile
      in path_basename c relativePath (Some (path_extname c relativePath)))"

definition outputPath :: "('b, 'n, 'z) collaborators \<Rightarrow> 'c builderConfig_scheme \<Rightarrow> string \<Rightarrow> string" where
  "outputPath c config yamlFile =
     path_join c [cfg_output config, outputName c config yamlFile @ ''.html'']"

definition buildPage ::
  "('b, 'n, 'z) collaborators \<Rightarrow> 'c builderConfig_scheme \<Rightarrow> string \<Rightarrow> componentManifest list
   \<Rightarrow> string list \<Rightarrow> (unit, ('b, 'n, 'z) state) action" where
  "buildPage c config yamlFile componentManifest generatedCSSFiles =
     andThen (readFile yamlFile)
       (\<lambda>yamlContent s.
          (case yaml_page c yamlContent of
             Inl e \<Rightarrow> (Inl e, s)
           | Inr pageConfig \<Rightarrow>
               andThen (loadNavigation c config)
                 (\<lambda>nav.
                    andThen
                      (render c config pageConfig nav componentManifest generatedCSSFiles
                         (Some (outputName c config yamlFile)) None)
                      (\<lambda>html. writeFile (outputPath c config yamlFile) html)) s))"

text \<open>
  The loop of \<^verbatim>\<open>build\<close> over the page files, with its try/catch around each page.
\<close>

definition page_error :: "string \<Rightarrow> thrown \<Rightarrow> string" where
  "page_error yamlFile e = ''Error building '' @ yamlFile @ '': '' @ errorMessage e"

fun buildPages ::
  "('b, 'n, 'z) collaborators \<Rightarrow> 'c builderConfig_scheme \<Rightarrow> componentManifest list \<Rightarrow> string list
   \<Rightarrow> string list \<Rightarrow> buildResult \<Rightarrow> ('b, 'n, 'z) state \<Rightarrow> buildResult \<times> ('b, 'n, 'z) state" where
  "buildPages c config componentManifest generatedCSSFiles [] result s = (result, s)"
| "buildPages c config componentManifest generatedCSSFiles (yamlFile # rest) result s =
     (case buildPage c config yamlFile componentManifest generatedCSSFiles s of
        (Inr u, s1) \<Rightarrow>
          buildPages c config componentManifest generatedCSSFiles rest
            (result\<lparr>pagesBuilt := pagesBuilt result + 1\<rparr>) s1
      | (Inl e, s1) \<Rightarrow>
          buildPages c config componentManifest generatedCSSFiles rest
            (result\<lparr>errors := errors result @ [page_error yamlFile e]\<rparr>) s1)"

text \<open>
  \<^verbatim>\<open>cleanupServerBundle\<close>: the loop over the recorded server assets, with the count of
  removed files and the messages of the removals that failed, then the log lines.
\<close>

definition removal_error :: "string \<Rightarrow> thrown \<Rightarrow> string" where
  "removal_error assetPath e = ''Failed to remove '' @ assetPath @ '': '' @ errorMessage e"

fun removeAssets ::
  "string list \<Rightarrow> nat \<Rightarrow> string list \<Rightarrow> ('b, 'n, 'z, 'w) state_scheme
   \<Rightarrow> (nat \<times> string list) \<times> ('b, 'n, 'z, 'w) state_scheme" where
  "removeAssets [] removedCount errs s = ((removedCount, errs), s)"
| "removeAssets (assetPath # rest) removedCount errs s =
     (if pathExists assetPath s then
        (case unlink assetPath s of
           (Inr u, s1) \<Rightarrow> removeAssets rest (removedCount + 1) errs s1
         | (Inl e, s1) \<Rightarrow> removeAssets rest removedCount (errs @ [removal_error assetPath e]) s1)
      else removeAssets rest removedCount errs s)"

definition cleanup_log :: "nat \<Rightarrow> string list \<Rightarrow> (level \<times> string) list" where
  "cleanup_log removedCount errs =
     (if removedCount > 0 then
        [(Log, check_mark @ '' Cleaned up '' @ show_nat removedCount @ '' server bundle files'')]
      else [])
     @ (if length errs > 0 then
          (Warn, ''Warnings during server bundle cleanup:'') # map (\<lambda>e. (Warn, ''  - '' @ e)) errs
        else [])"

definition cleanupServerBundle :: "('b, 'n, 'z, 'w) state_scheme \<Rightarrow> ('b, 'n, 'z, 'w) state_scheme" where
  "cleanupServerBundle s =
     (case removeAssets (serverBundleAssets s) 0 [] s of
        ((removedCount, errs), s1) \<Rightarrow> s1\<lparr>console := console s1 @ cleanup_log removedCount errs\<rparr>)"

text \<open>
  \<^verbatim>\<open>build\<close>. \<open>startTime\<close> and \<open>endTime\<close> are the readings of \<^verbatim>\<open>Date.now()\<close> at the
  start and where the elapsed time is taken. The try block runs in three stretches: up
  to the discovery of the page files (\<open>discoverPages\<close>), the loading of the components
  and the bundling (\<open>bundleComponents\<close>), and the pages followed by the cleanup. The
  steps that can throw out of the try block are those of the first two stretches (the
  loop catches per page, the cleanup per asset), so the catch block always finds the
  result as it was created.
\<close>

definition initialResult :: buildResult where
  "initialResult = \<lparr>pagesBuilt = 0, buildTime = 0, errors = [], warnings = []\<rparr>"

definition discoverPages ::
  "('b, 'n, 'z) collaborators \<Rightarrow> 'c builderConfig_scheme \<Rightarrow> (string list, ('b, 'n, 'z) state) action" where
  "discoverPages c config =
     andThen (fs_ensureDir c (cfg_output config))
       (\<lambda>u. andThen (if truthy (cfg_assets config) then copyStaticAssets c config else ret ())
          (\<lambda>u. andThen (copyFavicon c config)
             (\<lambda>u. findYamlFiles c config)))"

definition bundleComponents ::
  "('b, 'n, 'z) collaborators \<Rightarrow> 'c builderConfig_scheme
   \<Rightarrow> (componentManifest list, ('b, 'n, 'z) state) action" where
  "bundleComponents c config =
     andThen (loadComponents c config)
       (\<lambda>componentManifest.
          andThen (webpackBuilder_build c config componentManifest None)
            (\<lambda>u. ret componentManifest))"

definition buildSteps ::
  "('b, 'n, 'z) collaborators \<Rightarrow> 'c builderConfig_scheme \<Rightarrow> int \<Rightarrow> int
   \<Rightarrow> (buildResult, ('b, 'n, 'z) state) action" where
  "buildSteps c config startTime endTime =
     andThen (discoverPages c config)
       (\<lambda>yamlFiles.
          if length yamlFiles = 0 then
            ret (initialResult
                   \<lparr>warnings := warnings initialResult
                                 @ [''No YAML files found in input directory'']\<rparr>)
          else
            andThen (bundleComponents c config)
              (\<lambda>componentManifest s.
                 (case buildPages c config componentManifest (generatedAssets s) yamlFiles
                         initialResult s of
                    (result, s1) \<Rightarrow>
                      (Inr (result\<lparr>buildTime := endTime - startTime\<rparr>),
                       if length (errors result) = 0 then cleanupServerBundle s1 else s1))))"

definition build ::
  "('b, 'n, 'z) collaborators \<Rightarrow> 'c builderConfig_scheme \<Rightarrow> int \<Rightarrow> int \<Rightarrow> ('b, 'n, 'z) state
   \<Rightarrow> buildResult \<times> ('b, 'n, 'z) state" where
  "build c config startTime endTime s =
     (case buildSteps c config startTime endTime s of
        (Inr result, s1) \<Rightarrow> (result, s1)
      | (Inl e, s1) \<Rightarrow>
          (initialResult
             \<lparr>errors := errors initialResult @ [''Build failed: '' @ errorMessage e],
              buildTime := endTime - startTime\<rparr>, s1))"

text \<open>
  \<^verbatim>\<open>watch\<close>: the watched paths and the start of the watcher; the rebuilds it triggers
  later are events of their own.
\<close>

definition watchPaths :: "('b, 'n, 'z) collaborators \<Rightarrow> 'c builderConfig_scheme \<Rightarrow> string list" where
  "watchPaths c config =
     [path_join c [cfg_input config, ''**/*.{yml,yaml}'']]
     @ (if truthy (cfg_components config) then
          [path_join c [str_or (cfg_components config) [], ''**/*'']]
        else [])
     @ list_or_empty (cfg_css config)
     @ (if truthy (cfg_assets config) then [path_join c [str_or (cfg_assets config) [], ''**/*'']]
        else [])
     @ (if truthy (cfg_navigation config) then [str_or (cfg_navigation config) []] else [])"

definition watch ::
  "('b, 'n, 'z) collaborators \<Rightarrow> 'c builderConfig_scheme \<Rightarrow> (unit, ('b, 'n, 'z) state) action" where
  "watch c config s =
     (if \<not> cfg_watch config then (Inr (), s)
      else
        (case chokidar_watch c (watchPaths c config) of
           Some e \<Rightarrow> (Inl e, s)
         | None \<Rightarrow> console_print Log ''Watching for changes...'' s))"

section \<open>The command line\<close>

text \<open>\<^verbatim>\<open>a || b\<close> on optional strings, optional lists and optional flags.\<close>

definition or_else :: "string option \<Rightarrow> string option \<Rightarrow> string option" where
  "or_else a b = (if truthy a then a else b)"

definition list_or :: "'a list option \<Rightarrow> 'a list option \<Rightarrow> 'a list option" where
  "list_or a b = (case a of Some xs \<Rightarrow> Some xs | None \<Rightarrow> b)"

definition flag_or :: "bool option \<Rightarrow> bool option \<Rightarrow> bool" where
  "flag_or a b = (a = Some True \<or> b = Some True)"

definition emptyConfig :: partialConfig where
  "emptyConfig =
     \<lparr>p_input = None, p_output = None, p_css = None, p_components = None, p_assets = None,
      p_theme = None, p_baseUrl = None, p_minify = None, p_sourceMaps = None, p_watch = None,
      p_navigation = None, p_favicon = None\<rparr>"

definition mergeConfig :: "cliOptions \<Rightarrow> partialConfig \<Rightarrow> builderConfig" where
  "mergeConfig options config =
     \<lparr>cfg_input = str_or (or_else (p_input options) (p_input config)) ''./pages'',
      cfg_output = str_or (or_else (p_output options) (p_output config)) ''./dist'',
      cfg_css = Some (list_or_empty (list_or (p_css options) (p_css config))),
      cfg_components = or_else (p_components options) (p_components config),
      cfg_assets = or_else (p_assets options) (p_assets config),
      cfg_theme = Some (str_or (or_else (p_theme options) (p_theme config)) ''light''),
      cfg_baseUrl = Some (str_or (or_else (p_baseUrl options) (p_baseUrl config)) []),
      cfg_minify = flag_or (p_minify options) (p_minify config),
      cfg_sourceMaps = flag_or (p_sourceMaps options) (p_sourceMaps config),
      cfg_watch = flag_or (p_watch options) (p_watch config),
      cfg_navigation = or_else (p_navigation options) (p_navigation config),
      cfg_favicon = or_else (p_favicon options) (p_favicon config)\<rparr>"

definition loadConfig ::
  "('b, 'n, 'z) collaborators \<Rightarrow> cliOptions \<Rightarrow> (builderConfig, ('b, 'n, 'z) state) action" where
  "loadConfig c options s =
     (if pathExists (opt_config options) s then
        andThen (readFile (opt_config options))
          (\<lambda>configContent s1.
             (case yaml_config c configContent of
                Inl e \<Rightarrow> (Inl e, s1)
              | Inr config \<Rightarrow> (Inr (mergeConfig options config), s1))) s
      else (Inr (mergeConfig options emptyConfig), s))"

text \<open>Symbols printed by the command, as UTF-8 bytes.\<close>

definition rocket :: string where
  "rocket = [CHR 0xF0, CHR 0x9F, CHR 0x9A, CHR 0x80]"

definition folder :: string where
  "folder = [CHR 0xF0, CHR 0x9F, CHR 0x93, CHR 0x81]"

definition cross_mark :: string where
  "cross_mark = [CHR 0xE2, CHR 0x9D, CHR 0x8C]"

definition warning_emoji :: string where
  "warning_emoji = [CHR 0xE2, CHR 0x9A, CHR 0xA0, CHR 0xEF, CHR 0xB8, CHR 0x8F]"

definition check_box :: string where
  "check_box = [CHR 0xE2, CHR 0x9C, CHR 0x85]"

definition page_sign :: string where
  "page_sign = [CHR 0xF0, CHR 0x9F, CHR 0x93, CHR 0x84]"

definition stopwatch :: string where
  "stopwatch = [CHR 0xE2, CHR 0x8F, CHR 0xB1, CHR 0xEF, CHR 0xB8, CHR 0x8F]"

definition eyes :: string where
  "eyes = [CHR 0xF0, CHR 0x9F, CHR 0x91, CHR 0x80]"

definition show_int :: "int \<Rightarrow> string" where
  "show_int i = (if i < 0 then ''-'' @ show_nat (nat (- i)) else show_nat (nat i))"

text \<open>What the command prints for a Build Result.\<close>

definition error_report :: "buildResult \<Rightarrow> (level \<times> string) list" where
  "error_report result =
     (if length (errors result) > 0 then
        (Err, cross_mark @ '' Build completed with errors:'')
        # map (\<lambda>e. (Err, ''  - '' @ e)) (errors result)
      else [])"

definition warning_report :: "buildResult \<Rightarrow> (level \<times> string) list" where
  "warning_report result =
     (if length (warnings result) > 0 then
        (Warn, warning_emoji @ ''  Build completed with warnings:'')
        # map (\<lambda>w. (Warn, ''  - '' @ w)) (warnings result)
      else [])"

definition success_report :: "buildResult \<Rightarrow> (level \<times> string) list" where
  "success_report result =
     (if length (errors result) = 0 then
        [(Log, check_box @ '' Build completed successfully!''),
         (Log, page_sign @ '' Pages built: '' @ show_nat (pagesBuilt result)),
         (Log, stopwatch @ ''  Build time: '' @ show_int (buildTime result) @ ''ms'')]
      else [])"

text \<open>
  How the action of the \<^verbatim>\<open>build\<close> command leaves the process: by a call of
  \<^verbatim>\<open>process.exit\<close>, with the watcher running, or by returning. The source never sets
  \<^verbatim>\<open>process.exitCode\<close>, so a process that ends without \<^verbatim>\<open>process.exit\<close> has status 0.
\<close>

datatype processEnd = Exit nat | Watching | Returned

fun exitStatus :: "processEnd \<Rightarrow> nat option" where
  "exitStatus (Exit n) = Some n"
| "exitStatus Watching = None"
| "exitStatus Returned = Some 0"

text \<open>\<^verbatim>\<open>new PageBuilder(config)\<close>: the builder objects start with empty fields.\<close>

definition newPageBuilder :: "('b, 'n, 'z) state \<Rightarrow> ('b, 'n, 'z) state" where
  "newPageBuilder s = s\<lparr>generatedAssets := [], serverBundleAssets := [], serverModule := None\<rparr>"

text \<open>
  The state in which the command starts the build: a new builder, and the three lines
  that announce the build.
\<close>

definition startBuild :: "builderConfig \<Rightarrow> ('b, 'n, 'z) state \<Rightarrow> ('b, 'n, 'z) state" where
  "startBuild config s =
     (newPageBuilder s)
       \<lparr>console := console s @
          [(Log, rocket @ '' Building pages...''),
           (Log, folder @ '' Input: '' @ cfg_input config),
           (Log, folder @ '' Output: '' @ cfg_output config)]\<rparr>"

definition buildAction ::
  "('b, 'n, 'z) collaborators \<Rightarrow> cliOptions \<Rightarrow> int \<Rightarrow> int \<Rightarrow> ('b, 'n, 'z) state
   \<Rightarrow> processEnd \<times> ('b, 'n, 'z) state" where
  "buildAction c options startTime endTime s =
     (case loadConfig c options s of
        (Inl e, s1) \<Rightarrow>
          (Exit 1, s1\<lparr>console := console s1 @ [(Err, cross_mark @ '' Build failed: '' @ inspect c e)]\<rparr>)
      | (Inr config, s1) \<Rightarrow>
          (case build c config startTime endTime (startBuild config s1) of
             (result, s3) \<Rightarrow>
               (let s4 = s3\<lparr>console := console s3 @ error_report result
                                        @ warning_report result @ success_report result\<rparr>
                in if cfg_watch config then
                     (case watch c config
                             (s4\<lparr>console := console s4 @ [(Log, eyes @ '' Starting watch mode...'')]\<rparr>) of
                        (Inl e, s5) \<Rightarrow>
                          (Exit 1,
                           s5\<lparr>console := console s5
                                  @ [(Err, cross_mark @ '' Build failed: '' @ inspect c e)]\<rparr>)
                      | (Inr u, s5) \<Rightarrow> (Watching, s5))
                   else (Returned, s4))))"

section \<open>The outcomes of the page loop\<close>

text \<open>
  What the loop of \<^verbatim>\<open>build\<close> does page by page: the outcome of \<^verbatim>\<open>buildPage\<close> for each
  page file, in order, each page built in the state the previous one left. From the
  outcomes, the error entries of the pages that failed and the number of pages built.
\<close>

fun pageOutcomes ::
  "('b, 'n, 'z) collaborators \<Rightarrow> 'c builderConfig_scheme \<Rightarrow> componentManifest list \<Rightarrow> string list
   \<Rightarrow> string list \<Rightarrow> ('b, 'n, 'z) state \<Rightarrow> (string \<times> (thrown + unit)) list" where
  "pageOutcomes c config componentManifest generatedCSSFiles [] s = []"
| "pageOutcomes c config componentManifest generatedCSSFiles (yamlFile # rest) s =
     (case buildPage c config yamlFile componentManifest generatedCSSFiles s of
        (r, s1) \<Rightarrow> (yamlFile, r) # pageOutcomes c config componentManifest generatedCSSFiles rest s1)"

fun outcomeErrors :: "(string \<times> (thrown + unit)) list \<Rightarrow> string list" where
  "outcomeErrors [] = []"
| "outcomeErrors ((yamlFile, Inl e) # rest) = page_error yamlFile e # outcomeErrors rest"
| "outcomeErrors ((yamlFile, Inr u) # rest) = outcomeErrors rest"

fun outcomeBuilt :: "(string \<times> (thrown + unit)) list \<Rightarrow> nat" where
  "outcomeBuilt [] = 0"
| "outcomeBuilt ((yamlFile, Inl e) # rest) = outcomeBuilt rest"
| "outcomeBuilt ((yamlFile, Inr u) # rest) = Suc (outcomeBuilt rest)"

section \<open>An example project\<close>

text \<open>
  A small project on which the properties below are exercised: two page files under
  \<^verbatim>\<open>pages/\<close> (one of them malformed), output to \<^verbatim>\<open>dist/\<close>, a bundler that emits
  \<^verbatim>\<open>client.js\<close>, \<^verbatim>\<open>client.css\<close> and \<^verbatim>\<open>server.js\<close>, and a render function that throws on
  the page whose content is \<^verbatim>\<open>crash\<close>.
\<close>

definition demo_page :: "(string, string) pageConfig" where
  "demo_page =
     \<lparr>meta = Some \<lparr>title = Some ''Home'', description = None, sharing = None,
                    meta_keywords = None\<rparr>,
      css = None, js = None, navigation = None, blocks = ''hello''\<rparr>"

definition demo_renderPage :: "(string, string, unit) renderPage" where
  "demo_renderPage pageConfig theme nav analytics =
     (if blocks pageConfig = ''crash'' then Inl (JsError ''Cannot read properties of undefined'')
      else Inr (''<main>'' @ blocks pageConfig @ ''</main>''))"

definition demo_webpack ::
  "target \<Rightarrow> string \<Rightarrow> (string, string, unit) state \<Rightarrow> webpackOutcome \<times> (string, string, unit) state" where
  "demo_webpack tgt entry s =
     (case tgt of
        Web \<Rightarrow>
          (Stats (Some \<lparr>stats_errors = [], stats_warnings = [],
                         stats_assets = Some [''client.js'', ''client.css'']\<rparr>),
           s\<lparr>files := (files s)(''dist/client.js'' \<mapsto> ''client'', ''dist/client.css'' \<mapsto> ''css'')\<rparr>)
      | Node \<Rightarrow>
          (Stats (Some \<lparr>stats_errors = [], stats_warnings = [],
                         stats_assets = Some [''server.js'']\<rparr>),
           s\<lparr>files := (files s)(''dist/server.js'' \<mapsto> ''server'')\<rparr>))"

definition demo_basename :: "string \<Rightarrow> string option \<Rightarrow> string" where
  "demo_basename p ext =
     (let b = (case pop (split_char CHR ''/'' p) of None \<Rightarrow> p | Some x \<Rightarrow> x)
      in case ext of
           None \<Rightarrow> b
         | Some e \<Rightarrow> if e \<noteq> [] \<and> endsWith b e then take (length b - length e) b else b)"

definition demo_collaborators :: "(string, string, unit) collaborators" where
  "demo_collaborators =
     \<lparr>json_page = (\<lambda>p. ''{}''),
      json_nav = (\<lambda>n. ''undefined''),
      contentTransformer = (\<lambda>p. Inr p),
      yaml_page = (\<lambda>text. if text = ''blocks: [''
                             then Inl (JsError ''Flow sequence must end with a ]'')
                             else Inr (demo_page\<lparr>blocks := text\<rparr>)),
      yaml_nav = (\<lambda>text. Inr text),
      yaml_config = (\<lambda>text. Inr emptyConfig),
      inspect = errorMessage,
      path_join = join ''/'',
      path_resolve = join ''/'',
      path_relative = (\<lambda>from to. drop (length from + 1) to),
      path_basename = demo_basename,
      path_extname = (\<lambda>p. if endsWith p ''.yaml'' then ''.yaml'' else []),
      path_dirname = (\<lambda>p. p),
      path_isAbsolute = (\<lambda>p. startsWith p ''/''),
      glob = (\<lambda>pattern s.
                (Inr (filter (\<lambda>p. files s p \<noteq> None) [''pages/home.yaml'', ''pages/broken.yaml'']), s)),
      fs_ensureDir = (\<lambda>p s. (Inr (), s\<lparr>dirs := insert p (dirs s)\<rparr>)),
      fs_copy = (\<lambda>filtered src dst s. (Inr (), s)),
      require_module = (\<lambda>p s. (Inr demo_renderPage, s)),
      webpack = demo_webpack,
      import_matches = (\<lambda>text. []),
      chokidar_watch = (\<lambda>paths. None),
      packageRoot = (\<lambda>s. ''/pkg''),
      module_dirname = ''/pkg/dist/builder''\<rparr>"

definition demo_config :: builderConfig where
  "demo_config =
     \<lparr>cfg_input = ''pages'', cfg_output = ''dist'', cfg_css = Some [], cfg_components = None,
      cfg_assets = None, cfg_theme = Some ''light'', cfg_baseUrl = Some [], cfg_minify = False,
      cfg_sourceMaps = False, cfg_watch = False, cfg_navigation = None, cfg_favicon = None\<rparr>"

definition demo_state :: "(string, string, unit) state" where
  "demo_state =
     \<lparr>files = [''pages/home.yaml'' \<mapsto> ''hello'', ''pages/broken.yaml'' \<mapsto> ''blocks: [''],
      dirs = {''pages''},
      denied = Map.empty,
      console = [],
      generatedAssets = [],
      serverBundleAssets = [],
      serverModule = None\<rparr>"

text \<open>A page whose keywords carry markup.\<close>

definition injected_keyword :: string where
  \<open>injected_keyword = ''"><script>alert(1)</script>''\<close>

definition injected_page :: "(string, string) pageConfig" where
  "injected_page =
     demo_page\<lparr>meta := Some \<lparr>title = Some ''Home'', description = None, sharing = None,
                                meta_keywords = Some [injected_keyword]\<rparr>\<rparr>"


definition bundled_state :: "(string, string, unit) state" where
  "bundled_state =
     demo_state\<lparr>files := [''pages/home.yaml'' \<mapsto> ''hello'', ''pages/broken.yaml'' \<mapsto> ''blocks: ['',
                           ''dist/server.js'' \<mapsto> ''server'']\<rparr>"

definition valid_state :: "(string, string, unit) state" where
  "valid_state = demo_state\<lparr>files := [''pages/home.yaml'' \<mapsto> ''hello'']\<rparr>"

definition locked_state :: "(string, string, unit) state" where
  "locked_state =
     valid_state\<lparr>denied := [''dist/server.js'' \<mapsto> ''EACCES: permission denied'']\<rparr>"

definition empty_state :: "(string, string, unit) state" where
  "empty_state = demo_state\<lparr>files := Map.empty\<rparr>"

definition failing_bundler :: "(string, string, unit) collaborators" where
  "failing_bundler =
     demo_collaborators
       \<lparr>webpack := (\<lambda>tgt entry s.
                      (Stats (Some \<lparr>stats_errors = [''Module not found: ./Missing''],
                                     stats_warnings = [], stats_assets = None\<rparr>), s))\<rparr>"

text \<open>The command line options that give the configuration of the example project.\<close>

definition demo_options :: cliOptions where
  "demo_options =
     \<lparr>p_input = Some ''pages'', p_output = Some ''dist'', p_css = None, p_components = None,
      p_assets = None, p_theme = Some ''light'', p_baseUrl = None, p_minify = None,
      p_sourceMaps = None, p_watch = None, p_navigation = None, p_favicon = None,
      opt_config = ''./page-builder.config.yml''\<rparr>"

text \<open>
  The stretches of a build of the example project from a state: the state after the
  discovery of the page files, the state after the bundling, and the run of the loop
  over given page files.
\<close>

definition discovered :: "(string, string, unit) state \<Rightarrow> (string, string, unit) state" where
  "discovered st = snd (discoverPages demo_collaborators demo_config st)"

definition bundled :: "(string, string, unit) state \<Rightarrow> (string, string, unit) state" where
  "bundled st = snd (bundleComponents demo_collaborators demo_config (discovered st))"

definition pagesRun ::
  "string list \<Rightarrow> (string, string, unit) state \<Rightarrow> buildResult \<times> (string, string, unit) state" where
  "pagesRun yamlFiles st =
     buildPages demo_collaborators demo_config [] (generatedAssets (bundled st)) yamlFiles
       initialResult (bundled st)"

section \<open>Properties of the string functions\<close>

lemma startsWith_iff: "startsWith s p \<longleftrightarrow> (\<exists>r. s = p @ r)"
  by (induction s p rule: startsWith.induct) auto

lemma startsWith_append [simp]: "startsWith (p @ r) p"
  by (simp add: startsWith_iff)

lemma js_includes_iff: "js_includes s sub \<longleftrightarrow> (\<exists>a b. s = a @ sub @ b)"
proof (induction s)
  case Nil
  then show ?case by auto
next
  case (Cons c cs)
  show ?case
  proof
    assume "js_includes (c # cs) sub"
    then consider "startsWith (c # cs) sub" | "js_includes cs sub" by auto
    then show "\<exists>a b. c # cs = a @ sub @ b"
    proof cases
      case 1
      then obtain r where "c # cs = sub @ r" by (auto simp: startsWith_iff)
      then have "c # cs = [] @ sub @ r" by simp
      then show ?thesis by blast
    next
      case 2
      then obtain a b where "cs = a @ sub @ b" using Cons.IH by blast
      then have "c # cs = (c # a) @ sub @ b" by simp
      then show ?thesis by blast
    qed
  next
    assume "\<exists>a b. c # cs = a @ sub @ b"
    then obtain a b where ab: "c # cs = a @ sub @ b" by blast
    show "js_includes (c # cs) sub"
    proof (cases a)
      case Nil
      with ab have "startsWith (c # cs) sub" by (auto simp: startsWith_iff)
      then show ?thesis by simp
    next
      case (Cons x a')
      with ab have "cs = a' @ sub @ b" by simp
      then have "js_includes cs sub" using Cons.IH by blast
      then show ?thesis by simp
    qed
  qed
qed

lemma js_includes_mid: "js_includes (a @ sub @ b) sub"
  by (auto simp: js_includes_iff)

lemma js_includes_trans: "js_includes s t \<Longrightarrow> js_includes t u \<Longrightarrow> js_includes s u"
proof -
  assume "js_includes s t" "js_includes t u"
  then obtain a b a' b' where "s = a @ t @ b" "t = a' @ u @ b'"
    by (auto simp: js_includes_iff)
  then have "s = (a @ a') @ u @ (b' @ b)" by simp
  then show ?thesis unfolding js_includes_iff by blast
qed

lemma escapeChar_safe: "set (escapeChar c) \<inter> {CHR ''<'', CHR ''>'', CHR 0x22, CHR 0x27} = {}"
  by (simp add: escapeChar_def)

lemma escapeHtml_safe: "set (escapeHtml s) \<inter> {CHR ''<'', CHR ''>'', CHR 0x22, CHR 0x27} = {}"
  using escapeChar_safe by (induction s) (auto simp: escapeHtml_def)


lemma includes_skip: "js_includes t u \<Longrightarrow> js_includes (a @ t) u"
  unfolding js_includes_iff by (metis append.assoc)

lemma includes_here: "js_includes (u @ b) u"
  unfolding js_includes_iff by (metis append_Nil)


lemma document_has_metaTags:
  "js_includes (generateHTML jp jn config pageConfig nav pre cssFiles analytics)
     (generateMetaTags pageConfig)"
  unfolding generateHTML_def Let_def
  by (rule includes_here | rule includes_skip)+



section \<open>Properties of the document\<close>

text \<open>
  Claim C4 (violated by the code): every string field of a page that is interpolated
  into the document appears there with the characters \<^verbatim>\<open>& < > " '\<close> escaped. The titles,
  descriptions, sharing fields and the favicon path go through \<^verbatim>\<open>escapeHtml\<close>; the
  keywords do not. For the page \<open>injected_page\<close>, whose one keyword closes the attribute
  and opens a script element, the keywords tag carries the keyword as it is, and so does
  the document.
\<close>

theorem keywords_not_escaped:
  \<open>generateMetaTags injected_page
     = ''<meta name="keywords" content=""><script>alert(1)</script>">''
   \<and> js_includes
        (generateHTML (json_page demo_collaborators) (json_nav demo_collaborators) demo_config
           injected_page None (Some ''<main></main>'') [] None)
        ''<meta name="keywords" content=""><script>alert(1)</script>">''\<close>
proof -
  have m: \<open>generateMetaTags injected_page
     = ''<meta name="keywords" content=""><script>alert(1)</script>">''\<close>
    by (simp add: generateMetaTags_def injected_page_def injected_keyword_def demo_page_def
        sharing_field_def)
  show ?thesis
    using document_has_metaTags
      [of "json_page demo_collaborators" "json_nav demo_collaborators" demo_config
         injected_page None "Some ''<main></main>''" "[]" None]
    by (simp add: m)
qed




section \<open>Properties of the content transformation\<close>



section \<open>Evaluating the example project\<close>

lemmas action_defs = andThen_def ret_def throw_def tryFinally_def console_print_def Let_def

lemmas builder_defs =
  discoverPages_def bundleComponents_def copyFavicon_def findYamlFiles_def loadComponents_def
  webpackBuilder_build_def createClientEntry_def createServerEntry_def clientEntryPath_def
  serverEntryPath_def bundleBoth_def runWebpack_def remove_entries_def remove_if_exists_def
  buildPage_def loadNavigation_def render_def loadServerBundle_def transformPageContent_def
  renderToHTML_def outputPath_def outputName_def page_error_def endsWith_def
  pathExists_def readFile_def writeFile_def remove_file_def unlink_def

lemmas demo_defs =
  demo_collaborators_def demo_config_def demo_state_def demo_webpack_def demo_renderPage_def
  demo_basename_def demo_page_def

lemma with_snd: "fst x = a \<Longrightarrow> x = (a, snd x)"
  by (cases x) simp


section \<open>Properties of the server-side renderer\<close>







section \<open>Properties of the page loop\<close>

lemma buildPages_outcomes:
  "pagesBuilt (fst (buildPages c config m cssFiles yamlFiles result s))
     = pagesBuilt result + outcomeBuilt (pageOutcomes c config m cssFiles yamlFiles s)
   \<and> errors (fst (buildPages c config m cssFiles yamlFiles result s))
     = errors result @ outcomeErrors (pageOutcomes c config m cssFiles yamlFiles s)
   \<and> warnings (fst (buildPages c config m cssFiles yamlFiles result s)) = warnings result
   \<and> buildTime (fst (buildPages c config m cssFiles yamlFiles result s)) = buildTime result"
proof (induction yamlFiles arbitrary: result s)
  case Nil
  then show ?case by simp
next
  case (Cons yamlFile rest)
  obtain r s1 where bp: "buildPage c config yamlFile m cssFiles s = (r, s1)"
    by (cases "buildPage c config yamlFile m cssFiles s")
  show ?case
  proof (cases r)
    case (Inl e)
    with bp Cons.IH [of "result\<lparr>errors := errors result @ [page_error yamlFile e]\<rparr>" s1]
    show ?thesis by simp
  next
    case (Inr u)
    with bp Cons.IH [of "result\<lparr>pagesBuilt := pagesBuilt result + 1\<rparr>" s1]
    show ?thesis by simp
  qed
qed

lemma pageOutcomes_files:
  "map fst (pageOutcomes c config m cssFiles yamlFiles s) = yamlFiles"
  by (induction yamlFiles arbitrary: s) (auto split: prod.splits)

lemma outcomes_count:
  "outcomeBuilt os + length (outcomeErrors os) = length os"
  by (induction os rule: outcomeErrors.induct) auto

lemma page_error_names_file: "js_includes (page_error yamlFile e) yamlFile"
  unfolding page_error_def by (rule js_includes_mid)

text \<open>
  Claim C2: every page file has exactly one outcome, in the order of the files; a page
  that fails adds one entry to the error list, which names its file, and does not count
  in \<^verbatim>\<open>pagesBuilt\<close>; a page that succeeds counts once; the pages after a failed one are
  still processed. With one valid and one malformed page, in either order, the result has
  one page built and one error, that of the malformed file.
\<close>

theorem page_failure_is_isolated:
  "pagesBuilt (fst (buildPages c config m cssFiles yamlFiles result s))
     = pagesBuilt result + outcomeBuilt (pageOutcomes c config m cssFiles yamlFiles s)
   \<and> errors (fst (buildPages c config m cssFiles yamlFiles result s))
     = errors result @ outcomeErrors (pageOutcomes c config m cssFiles yamlFiles s)
   \<and> map fst (pageOutcomes c config m cssFiles yamlFiles s) = yamlFiles
   \<and> outcomeBuilt (pageOutcomes c config m cssFiles yamlFiles s)
       + length (outcomeErrors (pageOutcomes c config m cssFiles yamlFiles s))
     = length yamlFiles
   \<and> js_includes (page_error yamlFile e) yamlFile
   \<and> (fst (buildPage c config valid m cssFiles s) = Inr ()
        \<and> fst (buildPage c config broken m cssFiles (snd (buildPage c config valid m cssFiles s)))
            = Inl e
        \<longrightarrow> fst (buildPages c config m cssFiles [valid, broken] initialResult s)
            = initialResult\<lparr>pagesBuilt := 1, errors := [page_error broken e]\<rparr>)
   \<and> (fst (buildPage c config broken m cssFiles s) = Inl e
        \<and> fst (buildPage c config valid m cssFiles (snd (buildPage c config broken m cssFiles s)))
            = Inr ()
        \<longrightarrow> fst (buildPages c config m cssFiles [broken, valid] initialResult s)
            = initialResult\<lparr>pagesBuilt := 1, errors := [page_error broken e]\<rparr>)"
proof -
  have a: "fst (buildPage c config valid m cssFiles s) = Inr ()
        \<and> fst (buildPage c config broken m cssFiles (snd (buildPage c config valid m cssFiles s)))
            = Inl e
        \<longrightarrow> fst (buildPages c config m cssFiles [valid, broken] initialResult s)
            = initialResult\<lparr>pagesBuilt := 1, errors := [page_error broken e]\<rparr>"
    by (auto simp: initialResult_def split: prod.splits sum.splits)
  have b: "fst (buildPage c config broken m cssFiles s) = Inl e
        \<and> fst (buildPage c config valid m cssFiles (snd (buildPage c config broken m cssFiles s)))
            = Inr ()
        \<longrightarrow> fst (buildPages c config m cssFiles [broken, valid] initialResult s)
            = initialResult\<lparr>pagesBuilt := 1, errors := [page_error broken e]\<rparr>"
    by (auto simp: initialResult_def split: prod.splits sum.splits)
  have len: "length (pageOutcomes c config m cssFiles yamlFiles s) = length yamlFiles"
    using pageOutcomes_files [of c config m cssFiles yamlFiles s] by (metis length_map)
  have cnt: "outcomeBuilt (pageOutcomes c config m cssFiles yamlFiles s)
       + length (outcomeErrors (pageOutcomes c config m cssFiles yamlFiles s))
     = length yamlFiles"
    using outcomes_count [of "pageOutcomes c config m cssFiles yamlFiles s"] len by simp
  from buildPages_outcomes [of c config m cssFiles yamlFiles result s]
    pageOutcomes_files [of c config m cssFiles yamlFiles s] cnt
    page_error_names_file [of yamlFile e] a b
  show ?thesis by blast
qed

lemma demo_broken_page:
  "buildPage demo_collaborators demo_config ''pages/broken.yaml'' [] [] bundled_state
   = (Inl (JsError ''Flow sequence must end with a ]''), bundled_state)"
  by (simp add: buildPage_def andThen_def readFile_def bundled_state_def demo_collaborators_def)

lemma demo_valid_page:
  "fst (buildPage demo_collaborators demo_config ''pages/home.yaml'' [] [] bundled_state) = Inr ()"
  by (simp add: buildPage_def andThen_def readFile_def bundled_state_def demo_collaborators_def
      loadNavigation_def demo_config_def render_def loadServerBundle_def pathExists_def
      console_print_def transformPageContent_def ret_def renderToHTML_def demo_renderPage_def
      writeFile_def demo_state_def demo_page_def Let_def)

theorem page_failure_is_isolated_witness:
  "fst (buildPages demo_collaborators demo_config [] [] [''pages/broken.yaml'', ''pages/home.yaml'']
          initialResult bundled_state)
   = \<lparr>pagesBuilt = 1, buildTime = 0,
      errors = [''Error building pages/broken.yaml: Flow sequence must end with a ]''],
      warnings = []\<rparr>"
  using page_failure_is_isolated
    [of demo_collaborators demo_config "[]" "[]" "[]" initialResult bundled_state
        "''pages/broken.yaml''" "JsError ''Flow sequence must end with a ]''"
        "''pages/home.yaml''" "''pages/broken.yaml''"]
    demo_valid_page
  by (simp add: demo_broken_page page_error_def initialResult_def)

section \<open>Properties of the cleanup and of the exits of a build\<close>

lemma removeAssets_effect:
  "removeAssets ps n errs s = ((n', errs'), s') \<Longrightarrow>
     denied s' = denied s \<and> dirs s' = dirs s \<and> console s' = console s
     \<and> (\<forall>p. files s' p = (if p \<in> set ps \<and> denied s p = None then None else files s p))"
proof (induction ps arbitrary: n errs s)
  case Nil
  then show ?case by simp
next
  case (Cons a ps)
  show ?case
  proof (cases "pathExists a s")
    case False
    then have none: "files s a = None" by (simp add: pathExists_def)
    from Cons.prems False have "removeAssets ps n errs s = ((n', errs'), s')" by simp
    from Cons.IH [OF this] none show ?thesis by auto
  next
    case True
    show ?thesis
    proof (cases "denied s a")
      case (Some msg)
      then have u: "unlink a s = (Inl (JsError msg), s)" by (simp add: unlink_def)
      with Cons.prems True
      have "removeAssets ps n (errs @ [removal_error a (JsError msg)]) s = ((n', errs'), s')"
        by simp
      from Cons.IH [OF this] Some show ?thesis by auto
    next
      case None
      show ?thesis
      proof (cases "files s a")
        case fnone: None
        with None obtain e where u: "unlink a s = (Inl e, s)" by (simp add: unlink_def)
        with Cons.prems True
        have "removeAssets ps n (errs @ [removal_error a e]) s = ((n', errs'), s')" by simp
        from Cons.IH [OF this] fnone show ?thesis by auto
      next
        case (Some content)
        with None have u: "unlink a s = (Inr (), s\<lparr>files := (files s)(a := None)\<rparr>)"
          by (simp add: unlink_def)
        with Cons.prems True
        have "removeAssets ps (n + 1) errs (s\<lparr>files := (files s)(a := None)\<rparr>) = ((n', errs'), s')"
          by simp
        from Cons.IH [OF this] None show ?thesis by auto
      qed
    qed
  qed
qed

lemma removeAssets_errors:
  "removeAssets ps n errs s = ((n', errs'), s') \<Longrightarrow>
     set errs \<subseteq> set errs'
     \<and> (\<forall>p msg. p \<in> set ps \<and> files s p \<noteq> None \<and> denied s p = Some msg
            \<longrightarrow> removal_error p (JsError msg) \<in> set errs')"
proof (induction ps arbitrary: n errs s)
  case Nil
  then show ?case by simp
next
  case (Cons a ps)
  show ?case
  proof (cases "pathExists a s")
    case False
    then have none: "files s a = None" by (simp add: pathExists_def)
    from Cons.prems False have "removeAssets ps n errs s = ((n', errs'), s')" by simp
    from Cons.IH [OF this] none show ?thesis by auto
  next
    case True
    show ?thesis
    proof (cases "denied s a")
      case (Some msg)
      then have u: "unlink a s = (Inl (JsError msg), s)" by (simp add: unlink_def)
      with Cons.prems True
      have "removeAssets ps n (errs @ [removal_error a (JsError msg)]) s = ((n', errs'), s')"
        by simp
      from Cons.IH [OF this] Some show ?thesis by auto
    next
      case None
      show ?thesis
      proof (cases "files s a")
        case fnone: None
        with None obtain e where u: "unlink a s = (Inl e, s)" by (simp add: unlink_def)
        with Cons.prems True
        have "removeAssets ps n (errs @ [removal_error a e]) s = ((n', errs'), s')" by simp
        from Cons.IH [OF this] None show ?thesis by auto
      next
        case (Some content)
        with None have u: "unlink a s = (Inr (), s\<lparr>files := (files s)(a := None)\<rparr>)"
          by (simp add: unlink_def)
        with Cons.prems True
        have "removeAssets ps (n + 1) errs (s\<lparr>files := (files s)(a := None)\<rparr>) = ((n', errs'), s')"
          by simp
        from Cons.IH [OF this]
        have ih: "set errs \<subseteq> set errs'"
          "\<And>p msg. p \<in> set ps \<Longrightarrow> (if p = a then None else files s p) \<noteq> None
             \<Longrightarrow> denied s p = Some msg \<Longrightarrow> removal_error p (JsError msg) \<in> set errs'"
          by auto
        have "removal_error p (JsError msg) \<in> set errs'"
          if "p \<in> set (a # ps)" "files s p \<noteq> None" "denied s p = Some msg" for p msg
        proof -
          from that(3) None have "p \<noteq> a" by auto
          with that ih(2) [of p msg] show ?thesis by simp
        qed
        with ih(1) show ?thesis by blast
      qed
    qed
  qed
qed

lemma cleanup_removes:
  "p \<in> set (serverBundleAssets s) \<Longrightarrow> denied s p = None \<Longrightarrow> files (cleanupServerBundle s) p = None"
proof -
  assume a: "p \<in> set (serverBundleAssets s)" "denied s p = None"
  obtain n errs s1 where r: "removeAssets (serverBundleAssets s) 0 [] s = ((n, errs), s1)"
    by (metis prod.exhaust)
  from removeAssets_effect [OF r] a have "files s1 p = None" by simp
  with r show ?thesis by (simp add: cleanupServerBundle_def)
qed

lemma cleanup_keeps:
  "p \<notin> set (serverBundleAssets s) \<or> denied s p \<noteq> None \<Longrightarrow> files (cleanupServerBundle s) p = files s p"
proof -
  assume a: "p \<notin> set (serverBundleAssets s) \<or> denied s p \<noteq> None"
  obtain n errs s1 where r: "removeAssets (serverBundleAssets s) 0 [] s = ((n, errs), s1)"
    by (metis prod.exhaust)
  from removeAssets_effect [OF r] a have "files s1 p = files s p" by auto
  with r show ?thesis by (simp add: cleanupServerBundle_def)
qed

lemma cleanup_logs_failure:
  "p \<in> set (serverBundleAssets s) \<Longrightarrow> files s p \<noteq> None \<Longrightarrow> denied s p = Some msg \<Longrightarrow>
     (Warn, ''  - '' @ removal_error p (JsError msg)) \<in> set (console (cleanupServerBundle s))"
proof -
  assume a: "p \<in> set (serverBundleAssets s)" "files s p \<noteq> None" "denied s p = Some msg"
  obtain n errs s1 where r: "removeAssets (serverBundleAssets s) 0 [] s = ((n, errs), s1)"
    by (metis prod.exhaust)
  from removeAssets_errors [OF r] a have "removal_error p (JsError msg) \<in> set errs" by blast
  then have "(Warn, ''  - '' @ removal_error p (JsError msg)) \<in> set (cleanup_log n errs)"
    by (auto simp: cleanup_log_def)
  with r show ?thesis by (simp add: cleanupServerBundle_def)
qed

lemma build_after_pages:
  assumes "discoverPages c config s = (Inr yamlFiles, s1)"
    and "yamlFiles \<noteq> []"
    and "bundleComponents c config s1 = (Inr m, s2)"
    and "buildPages c config m (generatedAssets s2) yamlFiles initialResult s2 = (result, s3)"
  shows "build c config startTime endTime s
         = (result\<lparr>buildTime := endTime - startTime\<rparr>,
            if errors result = [] then cleanupServerBundle s3 else s3)"
  using assms by (simp add: build_def buildSteps_def andThen_def)

lemma build_without_pages:
  "discoverPages c config s = (Inr [], s1) \<Longrightarrow>
     build c config startTime endTime s
     = (\<lparr>pagesBuilt = 0, buildTime = 0, errors = [],
         warnings = [''No YAML files found in input directory'']\<rparr>, s1)"
  by (simp add: build_def buildSteps_def andThen_def ret_def initialResult_def)

lemma build_discovery_fails:
  "discoverPages c config s = (Inl e, s1) \<Longrightarrow>
     build c config startTime endTime s
     = (\<lparr>pagesBuilt = 0, buildTime = endTime - startTime,
         errors = [''Build failed: '' @ errorMessage e], warnings = []\<rparr>, s1)"
  by (simp add: build_def buildSteps_def andThen_def initialResult_def)

lemma build_bundling_fails:
  "discoverPages c config s = (Inr yamlFiles, s1) \<Longrightarrow> yamlFiles \<noteq> [] \<Longrightarrow>
   bundleComponents c config s1 = (Inl e, s2) \<Longrightarrow>
     build c config startTime endTime s
     = (\<lparr>pagesBuilt = 0, buildTime = endTime - startTime,
         errors = [''Build failed: '' @ errorMessage e], warnings = []\<rparr>, s2)"
  by (simp add: build_def buildSteps_def andThen_def initialResult_def)

lemma demo_discovers:
  "discoverPages demo_collaborators demo_config demo_state
   = (Inr [''pages/home.yaml'', ''pages/broken.yaml''], discovered demo_state)"
  unfolding discovered_def
  by (rule with_snd) (simp add: builder_defs action_defs demo_defs)

lemma demo_bundles:
  "bundleComponents demo_collaborators demo_config (discovered demo_state)
   = (Inr [], bundled demo_state)"
  unfolding bundled_def
  by (rule with_snd) (simp add: discovered_def builder_defs action_defs demo_defs)

lemma demo_pagesRun:
  "fst (pagesRun [''pages/home.yaml'', ''pages/broken.yaml''] demo_state)
     = \<lparr>pagesBuilt = 1, buildTime = 0,
        errors = [''Error building pages/broken.yaml: Flow sequence must end with a ]''],
        warnings = []\<rparr>
   \<and> files (snd (pagesRun [''pages/home.yaml'', ''pages/broken.yaml''] demo_state))
       ''dist/server.js'' = Some ''server''"
  by (simp add: pagesRun_def bundled_def discovered_def builder_defs action_defs demo_defs
      initialResult_def)

lemma valid_discovers:
  "discoverPages demo_collaborators demo_config valid_state
   = (Inr [''pages/home.yaml''], discovered valid_state)"
  unfolding discovered_def
  by (rule with_snd) (simp add: builder_defs action_defs demo_defs valid_state_def)

lemma valid_bundles:
  "bundleComponents demo_collaborators demo_config (discovered valid_state)
   = (Inr [], bundled valid_state)"
  unfolding bundled_def
  by (rule with_snd) (simp add: discovered_def builder_defs action_defs demo_defs valid_state_def)

lemma valid_pagesRun:
  "fst (pagesRun [''pages/home.yaml''] valid_state)
     = \<lparr>pagesBuilt = 1, buildTime = 0, errors = [], warnings = []\<rparr>
   \<and> serverBundleAssets (snd (pagesRun [''pages/home.yaml''] valid_state)) = [''dist/server.js'']
   \<and> denied (snd (pagesRun [''pages/home.yaml''] valid_state)) ''dist/server.js'' = None"
  by (simp add: pagesRun_def bundled_def discovered_def builder_defs action_defs demo_defs
      valid_state_def initialResult_def)

lemma locked_discovers:
  "discoverPages demo_collaborators demo_config locked_state
   = (Inr [''pages/home.yaml''], discovered locked_state)"
  unfolding discovered_def
  by (rule with_snd)
     (simp add: builder_defs action_defs demo_defs valid_state_def locked_state_def)

lemma locked_bundles:
  "bundleComponents demo_collaborators demo_config (discovered locked_state)
   = (Inr [], bundled locked_state)"
  unfolding bundled_def
  by (rule with_snd)
     (simp add: discovered_def builder_defs action_defs demo_defs valid_state_def
        locked_state_def)

lemma locked_pagesRun:
  "fst (pagesRun [''pages/home.yaml''] locked_state)
     = \<lparr>pagesBuilt = 1, buildTime = 0, errors = [], warnings = []\<rparr>
   \<and> serverBundleAssets (snd (pagesRun [''pages/home.yaml''] locked_state)) = [''dist/server.js'']
   \<and> denied (snd (pagesRun [''pages/home.yaml''] locked_state)) ''dist/server.js''
     = Some ''EACCES: permission denied''
   \<and> files (snd (pagesRun [''pages/home.yaml''] locked_state)) ''dist/server.js''
     = Some ''server''"
  by (simp add: pagesRun_def bundled_def discovered_def builder_defs action_defs demo_defs
      valid_state_def locked_state_def initialResult_def)

lemma empty_discovers:
  "discoverPages demo_collaborators demo_config empty_state = (Inr [], discovered empty_state)"
  unfolding discovered_def
  by (rule with_snd) (simp add: builder_defs action_defs demo_defs empty_state_def)

lemma pagesRun_pair:
  "buildPages demo_collaborators demo_config [] (generatedAssets (bundled st)) yamlFiles
     initialResult (bundled st)
   = (fst (pagesRun yamlFiles st), snd (pagesRun yamlFiles st))"
  by (simp add: pagesRun_def del: buildPages.simps)

text \<open>
  Claim C3: in a build that reaches the loop over the pages (page files were found and
  the bundling succeeded), the cleanup of the server bundle runs exactly when the error
  list is empty after the loop. When a page failed, the files are those the loop left:
  every server bundle file stays. When no page failed, every recorded server asset that
  can be removed is gone. (A build that ends before the loop runs no cleanup:
  \<open>build_without_pages\<close>, \<open>build_discovery_fails\<close>, \<open>build_bundling_fails\<close>.)
\<close>

theorem cleanup_iff_no_page_errors:
  assumes discovered: "discoverPages c config s = (Inr yamlFiles, s1)"
    and pages: "yamlFiles \<noteq> []"
    and bundled: "bundleComponents c config s1 = (Inr m, s2)"
    and processed: "buildPages c config m (generatedAssets s2) yamlFiles initialResult s2 = (result, s3)"
  shows "snd (build c config startTime endTime s)
           = (if errors result = [] then cleanupServerBundle s3 else s3)
         \<and> errors (fst (build c config startTime endTime s)) = errors result
         \<and> (errors result \<noteq> [] \<longrightarrow>
               files (snd (build c config startTime endTime s)) = files s3)
         \<and> (errors result = [] \<longrightarrow>
               (\<forall>p \<in> set (serverBundleAssets s3).
                  denied s3 p = None \<longrightarrow> files (snd (build c config startTime endTime s)) p = None))"
  using build_after_pages [OF assms, of startTime endTime] cleanup_removes [of _ s3]
  by simp

theorem cleanup_iff_no_page_errors_witness:
  "errors (fst (build demo_collaborators demo_config 100 107 demo_state))
     = [''Error building pages/broken.yaml: Flow sequence must end with a ]'']
   \<and> files (snd (build demo_collaborators demo_config 100 107 demo_state)) ''dist/server.js''
     = Some ''server''
   \<and> errors (fst (build demo_collaborators demo_config 100 107 valid_state)) = []
   \<and> files (snd (build demo_collaborators demo_config 100 107 valid_state)) ''dist/server.js''
     = None"
proof -
  let ?failing = "pagesRun [''pages/home.yaml'', ''pages/broken.yaml''] demo_state"
  let ?passing = "pagesRun [''pages/home.yaml''] valid_state"
  have failed: "errors (fst ?failing) \<noteq> []"
    using demo_pagesRun by simp
  have passed: "errors (fst ?passing) = []"
    using valid_pagesRun by simp
  have two: "[''pages/home.yaml'', ''pages/broken.yaml''] \<noteq> []" and one: "[''pages/home.yaml''] \<noteq> []"
    by simp_all
  from cleanup_iff_no_page_errors [OF demo_discovers two demo_bundles pagesRun_pair, of 100 107]
  have "errors (fst (build demo_collaborators demo_config 100 107 demo_state))
          = errors (fst ?failing)"
    and "errors (fst ?failing) \<noteq> [] \<longrightarrow>
           files (snd (build demo_collaborators demo_config 100 107 demo_state))
           = files (snd ?failing)"
    by blast+
  with failed demo_pagesRun
  have a: "errors (fst (build demo_collaborators demo_config 100 107 demo_state))
             = [''Error building pages/broken.yaml: Flow sequence must end with a ]'']"
    "files (snd (build demo_collaborators demo_config 100 107 demo_state)) ''dist/server.js''
       = Some ''server''"
    by simp_all
  from cleanup_iff_no_page_errors [OF valid_discovers one valid_bundles pagesRun_pair, of 100 107]
  have "errors (fst (build demo_collaborators demo_config 100 107 valid_state))
          = errors (fst ?passing)"
    and "errors (fst ?passing) = [] \<longrightarrow>
           (\<forall>p \<in> set (serverBundleAssets (snd ?passing)).
              denied (snd ?passing) p = None \<longrightarrow>
                files (snd (build demo_collaborators demo_config 100 107 valid_state)) p = None)"
    by blast+
  with passed valid_pagesRun
  have b: "errors (fst (build demo_collaborators demo_config 100 107 valid_state)) = []"
    "files (snd (build demo_collaborators demo_config 100 107 valid_state)) ''dist/server.js''
       = None"
    by simp_all
  from a b show ?thesis by simp
qed

text \<open>
  Claim C9: when the cleanup runs, a removal that fails is caught and printed as a
  warning, the file stays, and the Build Result is not touched: a build whose pages all
  succeeded returns an empty error list whatever removals fail.
\<close>

theorem cleanup_failures_only_logged:
  assumes discovered: "discoverPages c config s = (Inr yamlFiles, s1)"
    and pages: "yamlFiles \<noteq> []"
    and bundled: "bundleComponents c config s1 = (Inr m, s2)"
    and processed: "buildPages c config m (generatedAssets s2) yamlFiles initialResult s2 = (result, s3)"
    and succeeded: "errors result = []"
  shows "build c config startTime endTime s
           = (result\<lparr>buildTime := endTime - startTime\<rparr>, cleanupServerBundle s3)
         \<and> errors (fst (build c config startTime endTime s)) = []
         \<and> (\<forall>p \<in> set (serverBundleAssets s3). \<forall>msg.
               files s3 p \<noteq> None \<and> denied s3 p = Some msg \<longrightarrow>
                 (Warn, ''  - '' @ removal_error p (JsError msg))
                   \<in> set (console (snd (build c config startTime endTime s)))
                 \<and> files (snd (build c config startTime endTime s)) p = files s3 p)"
proof -
  have b: "build c config startTime endTime s
           = (result\<lparr>buildTime := endTime - startTime\<rparr>, cleanupServerBundle s3)"
    using build_after_pages [OF discovered pages bundled processed, of startTime endTime] succeeded
    by simp
  moreover have "errors (fst (build c config startTime endTime s)) = []"
    using b succeeded by simp
  moreover have "(Warn, ''  - '' @ removal_error p (JsError msg))
                   \<in> set (console (snd (build c config startTime endTime s)))
                 \<and> files (snd (build c config startTime endTime s)) p = files s3 p"
    if "p \<in> set (serverBundleAssets s3)" "files s3 p \<noteq> None" "denied s3 p = Some msg" for p msg
    using that b cleanup_logs_failure [of p s3 msg] cleanup_keeps [of p s3] by simp
  ultimately show ?thesis by blast
qed

theorem cleanup_failures_only_logged_witness:
  "fst (build demo_collaborators demo_config 100 107 locked_state)
     = \<lparr>pagesBuilt = 1, buildTime = 7, errors = [], warnings = []\<rparr>
   \<and> (Warn, ''  - Failed to remove dist/server.js: EACCES: permission denied'')
       \<in> set (console (snd (build demo_collaborators demo_config 100 107 locked_state)))
   \<and> files (snd (build demo_collaborators demo_config 100 107 locked_state)) ''dist/server.js''
     = Some ''server''"
proof -
  let ?run = "pagesRun [''pages/home.yaml''] locked_state"
  have passed: "errors (fst ?run) = []"
    using locked_pagesRun by simp
  have one: "[''pages/home.yaml''] \<noteq> []" by simp
  from cleanup_failures_only_logged
         [OF locked_discovers one locked_bundles pagesRun_pair passed, of 100 107]
  have r: "build demo_collaborators demo_config 100 107 locked_state
           = ((fst ?run)\<lparr>buildTime := 107 - 100\<rparr>, cleanupServerBundle (snd ?run))"
    and l: "\<forall>p \<in> set (serverBundleAssets (snd ?run)). \<forall>msg.
              files (snd ?run) p \<noteq> None \<and> denied (snd ?run) p = Some msg \<longrightarrow>
                (Warn, ''  - '' @ removal_error p (JsError msg))
                  \<in> set (console (snd (build demo_collaborators demo_config 100 107 locked_state)))
                \<and> files (snd (build demo_collaborators demo_config 100 107 locked_state)) p
                  = files (snd ?run) p"
    by blast+
  from r locked_pagesRun
  have "fst (build demo_collaborators demo_config 100 107 locked_state)
        = \<lparr>pagesBuilt = 1, buildTime = 7, errors = [], warnings = []\<rparr>"
    by simp
  moreover from l locked_pagesRun
  have "(Warn, ''  - '' @ removal_error ''dist/server.js'' (JsError ''EACCES: permission denied''))
          \<in> set (console (snd (build demo_collaborators demo_config 100 107 locked_state)))
        \<and> files (snd (build demo_collaborators demo_config 100 107 locked_state)) ''dist/server.js''
          = Some ''server''"
    by (metis list.set_intros(1) option.distinct(1))
  ultimately show ?thesis by (simp add: removal_error_def)
qed

text \<open>
  Claim C10: when no page file is discovered, the build returns no page built, no
  error, the one warning, and a build time of 0; on every other exit the build time is
  the elapsed time.
\<close>

theorem no_pages_early_return:
  "(discoverPages c config s = (Inr [], s1) \<longrightarrow>
      build c config startTime endTime s
      = (\<lparr>pagesBuilt = 0, buildTime = 0, errors = [],
          warnings = [''No YAML files found in input directory'']\<rparr>, s1))
   \<and> (fst (discoverPages c config s) \<noteq> Inr [] \<longrightarrow>
      buildTime (fst (build c config startTime endTime s)) = endTime - startTime)"
proof -
  have "buildTime (fst (build c config startTime endTime s)) = endTime - startTime"
    if ne: "fst (discoverPages c config s) \<noteq> Inr []"
  proof -
    obtain r s1' where d: "discoverPages c config s = (r, s1')" by (metis prod.exhaust)
    show ?thesis
    proof (cases r)
      case (Inl e)
      with d build_discovery_fails [of c config s e s1' startTime endTime] show ?thesis by simp
    next
      case (Inr yamlFiles)
      with d ne have nonempty: "yamlFiles \<noteq> []" by auto
      obtain r2 s2 where b: "bundleComponents c config s1' = (r2, s2)" by (metis prod.exhaust)
      show ?thesis
      proof (cases r2)
        case (Inl e)
        with d Inr nonempty b build_bundling_fails [of c config s yamlFiles s1' e s2 startTime endTime]
        show ?thesis by simp
      next
        case m: (Inr m)
        obtain result s3 where
          p: "buildPages c config m (generatedAssets s2) yamlFiles initialResult s2 = (result, s3)"
          by (metis prod.exhaust)
        from d Inr nonempty b m p
          build_after_pages [of c config s yamlFiles s1' m s2 result s3 startTime endTime]
        show ?thesis by simp
      qed
    qed
  qed
  then show ?thesis using build_without_pages [of c config s s1 startTime endTime] by blast
qed

theorem no_pages_early_return_witness:
  "fst (build demo_collaborators demo_config 100 107 empty_state)
     = \<lparr>pagesBuilt = 0, buildTime = 0, errors = [],
        warnings = [''No YAML files found in input directory'']\<rparr>
   \<and> buildTime (fst (build demo_collaborators demo_config 100 107 demo_state)) = 7"
  using no_pages_early_return
      [of demo_collaborators demo_config empty_state "discovered empty_state" 100 107]
    no_pages_early_return
      [of demo_collaborators demo_config demo_state "discovered demo_state" 100 107]
  by (simp add: empty_discovers demo_discovers)

section \<open>Properties of the bundler adapter\<close>

lemma remove_if_exists_effect:
  "denied s p = None \<Longrightarrow>
     \<exists>s'. remove_if_exists p s = (Inr (), s') \<and> \<not> pathExists p s' \<and> denied s' = denied s
          \<and> (\<forall>q. \<not> pathExists q s \<longrightarrow> \<not> pathExists q s')"
  by (auto simp: remove_if_exists_def remove_file_def pathExists_def)

lemma remove_entries_effect:
  assumes "denied s a = None" and "denied s b = None"
  shows "\<exists>s'. remove_entries a b s = (Inr (), s') \<and> \<not> pathExists a s' \<and> \<not> pathExists b s'"
proof -
  from remove_if_exists_effect [OF assms(1)]
  obtain s1 where s1: "remove_if_exists a s = (Inr (), s1)" "\<not> pathExists a s1"
      "denied s1 = denied s" by blast
  from assms(2) s1(3) have "denied s1 b = None" by simp
  from remove_if_exists_effect [OF this]
  obtain s2 where s2: "remove_if_exists b s1 = (Inr (), s2)" "\<not> pathExists b s2"
      "\<forall>q. \<not> pathExists q s1 \<longrightarrow> \<not> pathExists q s2" by blast
  from s1 s2 show ?thesis by (auto simp: remove_entries_def)
qed

text \<open>
  Claim C7: once both temporary entry files are written, whatever the outcome of the two
  bundler runs, \<^verbatim>\<open>WebpackBuilder.build\<close> ends with that outcome and with neither entry file
  left, provided the file system lets them be removed.
\<close>

theorem entry_files_removed:
  assumes client: "createClientEntry c config m analytics s = (Inr clientEntry, s1)"
    and server: "createServerEntry c m analytics s1 = (Inr serverEntry, s2)"
    and bundling: "bundleBoth c config clientEntry serverEntry s2 = (outcome, s3)"
    and removable: "denied s3 clientEntry = None \<and> denied s3 serverEntry = None"
  shows "files s2 clientEntry \<noteq> None \<and> files s2 serverEntry \<noteq> None
         \<and> (\<exists>s'. webpackBuilder_build c config m analytics s = (outcome, s')
                \<and> \<not> pathExists clientEntry s' \<and> \<not> pathExists serverEntry s')"
proof -
  from client have c1: "files s1 clientEntry \<noteq> None"
    by (auto simp: createClientEntry_def andThen_def writeFile_def ret_def Let_def
        split: option.splits)
  from server have c2: "files s2 serverEntry \<noteq> None" "files s2 clientEntry = files s1 clientEntry
      \<or> clientEntry = serverEntry"
    by (auto simp: createServerEntry_def andThen_def writeFile_def ret_def Let_def
        split: option.splits)
  from removable remove_entries_effect [of s3 clientEntry serverEntry]
  obtain s' where fin: "remove_entries clientEntry serverEntry s3 = (Inr (), s')"
      "\<not> pathExists clientEntry s'" "\<not> pathExists serverEntry s'" by blast
  from client server bundling fin(1)
  have "webpackBuilder_build c config m analytics s = (outcome, s')"
    by (simp add: webpackBuilder_build_def andThen_def tryFinally_def)
  with c1 c2 fin show ?thesis by auto
qed

theorem entry_files_removed_witness:
  "files (snd (createServerEntry failing_bundler [] None
          (snd (createClientEntry failing_bundler demo_config [] None demo_state))))
      ''/pkg/temp-client-entry.tsx'' \<noteq> None
   \<and> (\<exists>s'. webpackBuilder_build failing_bundler demo_config [] None demo_state
             = (Inl (JsError (''Webpack compilation errors:'' @ nl @ ''Module not found: ./Missing'')), s')
           \<and> \<not> pathExists ''/pkg/temp-client-entry.tsx'' s'
           \<and> \<not> pathExists ''/pkg/temp-server-entry.tsx'' s')"
proof -
  let ?c = failing_bundler
  let ?s1 = "snd (createClientEntry ?c demo_config [] None demo_state)"
  let ?s2 = "snd (createServerEntry ?c [] None ?s1)"
  let ?s3 = "snd (bundleBoth ?c demo_config ''/pkg/temp-client-entry.tsx''
                    ''/pkg/temp-server-entry.tsx'' ?s2)"
  have client: "createClientEntry ?c demo_config [] None demo_state
                = (Inr ''/pkg/temp-client-entry.tsx'', ?s1)"
    by (rule with_snd)
       (simp add: builder_defs action_defs demo_defs failing_bundler_def)
  have server: "createServerEntry ?c [] None ?s1 = (Inr ''/pkg/temp-server-entry.tsx'', ?s2)"
    by (rule with_snd)
       (simp add: builder_defs action_defs demo_defs failing_bundler_def)
  have bundling: "bundleBoth ?c demo_config ''/pkg/temp-client-entry.tsx''
                    ''/pkg/temp-server-entry.tsx'' ?s2
                  = (Inl (JsError (''Webpack compilation errors:'' @ nl
                                   @ ''Module not found: ./Missing'')), ?s3)"
    by (rule with_snd)
       (simp add: builder_defs action_defs demo_defs failing_bundler_def)
  have removable: "denied ?s3 ''/pkg/temp-client-entry.tsx'' = None
                   \<and> denied ?s3 ''/pkg/temp-server-entry.tsx'' = None"
    by (simp add: builder_defs action_defs demo_defs failing_bundler_def)
  from entry_files_removed [OF client server bundling removable]
  show ?thesis by blast
qed

section \<open>Properties of the command line\<close>

lemma demo_loadConfig:
  "loadConfig demo_collaborators demo_options demo_state = (Inr demo_config, demo_state)"
  by (simp add: loadConfig_def pathExists_def demo_options_def demo_state_def mergeConfig_def
      emptyConfig_def or_else_def list_or_def flag_or_def demo_config_def)

lemma in_report_errors:
  "e \<in> set (errors result) \<Longrightarrow> (Err, ''  - '' @ e) \<in> set (error_report result)"
  by (auto simp: error_report_def)

lemma in_report_warnings:
  "w \<in> set (warnings result) \<Longrightarrow> (Warn, ''  - '' @ w) \<in> set (warning_report result)"
  by (auto simp: warning_report_def)

lemma exit_on_config_error:
  "loadConfig c options s = (Inl e, s1) \<Longrightarrow>
     fst (buildAction c options startTime endTime s) = Exit 1"
  by (simp add: buildAction_def)

lemma demo_build_result:
  "fst (build demo_collaborators demo_config 100 107 (startBuild demo_config demo_state))
   = \<lparr>pagesBuilt = 1, buildTime = 7,
      errors = [''Error building pages/broken.yaml: Flow sequence must end with a ]''],
      warnings = []\<rparr>"
  by (simp add: build_def buildSteps_def builder_defs action_defs demo_defs initialResult_def
      startBuild_def newPageBuilder_def)

text \<open>
  Claim C5, as amended: when the configuration loads, the command prints, after the
  lines of the build, the report of the errors and the report of the warnings of the
  Build Result (one line for each), and it ends by returning, with status 0, unless
  watch mode is on; in watch mode it keeps running, or exits with status 1 when the
  watcher cannot be started. The error list of the Build Result has no part in the exit
  status. (When the configuration cannot be loaded the command exits with status 1:
  \<open>exit_on_config_error\<close>.)
\<close>

theorem exit_status_ignores_build_errors:
  assumes config: "loadConfig c options s = (Inr config, s1)"
    and built: "build c config startTime endTime (startBuild config s1) = (result, s3)"
  shows "\<exists>s' printed.
           buildAction c options startTime endTime s
             = ((if cfg_watch config then
                   (case chokidar_watch c (watchPaths c config) of
                      Some e \<Rightarrow> Exit 1
                    | None \<Rightarrow> Watching)
                 else Returned), s')
         \<and> console s' = console s3 @ error_report result @ warning_report result @ printed
         \<and> (\<forall>e \<in> set (errors result). (Err, ''  - '' @ e) \<in> set (console s'))
         \<and> (\<forall>w \<in> set (warnings result). (Warn, ''  - '' @ w) \<in> set (console s'))
         \<and> (\<not> cfg_watch config \<longrightarrow>
               exitStatus (fst (buildAction c options startTime endTime s)) = Some 0)"
proof -
  let ?end = "if cfg_watch config then
                (case chokidar_watch c (watchPaths c config) of
                   Some e \<Rightarrow> Exit 1
                 | None \<Rightarrow> Watching)
              else Returned"
  define s4 where
    "s4 = s3\<lparr>console := console s3 @ error_report result @ warning_report result
                          @ success_report result\<rparr>"
  have ex: "\<exists>s' printed. buildAction c options startTime endTime s = (?end, s')
              \<and> console s' = console s3 @ error_report result @ warning_report result @ printed"
  proof (cases "cfg_watch config")
    case False
    with config built have "buildAction c options startTime endTime s = (?end, s4)"
      by (simp add: buildAction_def s4_def)
    moreover have "console s4 = console s3 @ error_report result @ warning_report result
                     @ success_report result"
      by (simp add: s4_def)
    ultimately show ?thesis by blast
  next
    case True
    define s5 where "s5 = s4\<lparr>console := console s4 @ [(Log, eyes @ '' Starting watch mode...'')]\<rparr>"
    show ?thesis
    proof (cases "chokidar_watch c (watchPaths c config)")
      case None
      with True config built
      have "buildAction c options startTime endTime s
            = (?end, s5\<lparr>console := console s5 @ [(Log, ''Watching for changes...'')]\<rparr>)"
        by (simp add: buildAction_def watch_def console_print_def s4_def s5_def)
      moreover have "console (s5\<lparr>console := console s5 @ [(Log, ''Watching for changes...'')]\<rparr>)
          = console s3 @ error_report result @ warning_report result
            @ (success_report result @ [(Log, eyes @ '' Starting watch mode...''),
                                        (Log, ''Watching for changes...'')])"
        by (simp add: s4_def s5_def)
      ultimately show ?thesis by blast
    next
      case (Some e)
      with True config built
      have "buildAction c options startTime endTime s
            = (?end, s5\<lparr>console := console s5
                               @ [(Err, cross_mark @ '' Build failed: '' @ inspect c e)]\<rparr>)"
        by (simp add: buildAction_def watch_def s4_def s5_def)
      moreover have "console (s5\<lparr>console := console s5
                               @ [(Err, cross_mark @ '' Build failed: '' @ inspect c e)]\<rparr>)
          = console s3 @ error_report result @ warning_report result
            @ (success_report result @ [(Log, eyes @ '' Starting watch mode...''),
                                        (Err, cross_mark @ '' Build failed: '' @ inspect c e)])"
        by (simp add: s4_def s5_def)
      ultimately show ?thesis by blast
    qed
  qed
  then obtain s' printed where
    a: "buildAction c options startTime endTime s = (?end, s')" and
    p: "console s' = console s3 @ error_report result @ warning_report result @ printed"
    by blast
  have "\<forall>e \<in> set (errors result). (Err, ''  - '' @ e) \<in> set (console s')"
    using p in_report_errors [of _ result] by auto
  moreover have "\<forall>w \<in> set (warnings result). (Warn, ''  - '' @ w) \<in> set (console s')"
    using p in_report_warnings [of _ result] by auto
  moreover have "\<not> cfg_watch config \<longrightarrow>
               exitStatus (fst (buildAction c options startTime endTime s)) = Some 0"
    using a by simp
  ultimately show ?thesis using a p by blast
qed

theorem exit_status_ignores_build_errors_witness:
  "exitStatus (fst (buildAction demo_collaborators demo_options 100 107 demo_state)) = Some 0
   \<and> (Err, ''  - Error building pages/broken.yaml: Flow sequence must end with a ]'')
       \<in> set (console (snd (buildAction demo_collaborators demo_options 100 107 demo_state)))"
proof -
  from exit_status_ignores_build_errors
         [OF demo_loadConfig with_snd [OF demo_build_result]]
  obtain s' and printed :: "(level \<times> string) list" where
    a: "buildAction demo_collaborators demo_options 100 107 demo_state
        = ((if cfg_watch demo_config then
              (case chokidar_watch demo_collaborators (watchPaths demo_collaborators demo_config) of
                 Some e \<Rightarrow> Exit 1
               | None \<Rightarrow> Watching)
            else Returned), s')"
    and b: "\<forall>e \<in> set (errors \<lparr>pagesBuilt = 1, buildTime = 7,
              errors = [''Error building pages/broken.yaml: Flow sequence must end with a ]''],
              warnings = []\<rparr>). (Err, ''  - '' @ e) \<in> set (console s')"
    by blast
  from a have "exitStatus (fst (buildAction demo_collaborators demo_options 100 107 demo_state)) = Some 0"
    by (simp add: demo_config_def)
  moreover from a b
  have "(Err, ''  - Error building pages/broken.yaml: Flow sequence must end with a ]'')
       \<in> set (console (snd (buildAction demo_collaborators demo_options 100 107 demo_state)))"
    by simp
  ultimately show ?thesis by simp
qed

text \<open>
  The claim as stated, with a non-zero exit status exactly when the error list is not
  empty, fails on the example project: the malformed page puts an error in the Build
  Result, and the command ends with status 0.
\<close>

theorem build_errors_exit_zero_counterexample:
  "errors (fst (build demo_collaborators demo_config 100 107 (startBuild demo_config demo_state)))
     = [''Error building pages/broken.yaml: Flow sequence must end with a ]'']
   \<and> loadConfig demo_collaborators demo_options demo_state = (Inr demo_config, demo_state)
   \<and> exitStatus (fst (buildAction demo_collaborators demo_options 100 107 demo_state)) = Some 0"
proof -
  have "fst (buildAction demo_collaborators demo_options 100 107 demo_state) = Returned"
    by (simp add: buildAction_def demo_loadConfig split: prod.splits)
       (simp add: demo_config_def)
  then show ?thesis by (simp add: demo_build_result demo_loadConfig)
qed

end
